theory Spec2Isabelle
  imports Complex_Main
begin

section \<open>Values of the JavaScript runtime\<close>

text \<open>
  The server is a TypeScript program (\<^verbatim>\<open>src/index.ts\<close>). Its request arguments are typed
  \<^verbatim>\<open>any\<close>, so the model carries them as JSON values. A number is an IEEE double: every
  finite double is a rational, and the three special values are kept apart.
\<close>

datatype jsnum = Fin rat | NaN | PInf | NInf

datatype json =
    JUndef
  | JNull
  | JBool bool
  | JNum jsnum
  | JStr string
  | JArr "json list"
  | JObj "(string \<times> json) list"

abbreviation num :: "rat \<Rightarrow> json" where
  "num r \<equiv> JNum (Fin r)"

text \<open>
  A thrown value: an \<^verbatim>\<open>Error\<close> object with its \<^verbatim>\<open>name\<close> and \<^verbatim>\<open>message\<close>, or any other
  value, kept as the string \<^verbatim>\<open>String(value)\<close> gives for it.
\<close>

datatype js_exn = ErrorObj string string | Thrown string

abbreviation Error :: "string \<Rightarrow> js_exn" where
  "Error msg \<equiv> ErrorObj ''Error'' msg"

text \<open>\<^verbatim>\<open>error instanceof Error ? error.message : String(error)\<close>\<close>

fun exn_message :: "js_exn \<Rightarrow> string" where
  "exn_message (ErrorObj n m) = m"
| "exn_message (Thrown s) = s"

text \<open>The conversion a template literal applies to a caught value: \<^verbatim>\<open>Error.prototype.toString\<close>.\<close>

fun exn_toString :: "js_exn \<Rightarrow> string" where
  "exn_toString (ErrorObj n m) = (if n = [] then m else if m = [] then n else n @ '': '' @ m)"
| "exn_toString (Thrown s) = s"

section \<open>The filesystem and the server's state\<close>

text \<open>
  Files are kept by path with their bytes, directories as a set of paths. Paths are
  compared as strings.
\<close>

record filesystem =
  files :: "string \<rightharpoonup> string"
  dirs :: "string set"

text \<open>
  \<^verbatim>\<open>let vips: any = null\<close> is the only module variable that is assigned after start-up.
  \<open>vips_loads\<close> counts the invocations of the factory \<^verbatim>\<open>Vips()\<close> so far; the instance the
  \<open>n\<close>-th invocation creates is identified by \<open>n\<close>. \<open>tools\<close> is the module constant
  \<^verbatim>\<open>const tools: Tool[]\<close>, an array object of the process.
\<close>

record server_state =
  vips :: "nat option"
  vips_loads :: nat
  tools :: "json list"

section \<open>The libraries outside the repository\<close>

text \<open>
  A Sharp pipeline is the constructor's input, the chain of method calls with their
  arguments, and the terminal call that runs it.
\<close>

datatype sharp_input = FromPath json | Create json

datatype sharp_op = SOp string "json list"

text \<open>
  Everything the handler calls but does not define is a parameter: built-ins of the
  JavaScript engine whose result depends on rounding or coercion, Node's \<^verbatim>\<open>path\<close> and
  \<^verbatim>\<open>fs\<close>, Sharp and wasm-vips. A library call yields \<open>Inl\<close> of the value it throws or
  \<open>Inr\<close> of its result. The wasm-vips part of a \<^verbatim>\<open>try\<close> block (from the first
  \<^verbatim>\<open>vips.Image\<close> call to \<^verbatim>\<open>writeToFile\<close>, or to the last statistic read) is one library
  outcome, named by the tool and the values the block reads.
\<close>

record env =
  to_string :: "json \<Rightarrow> string"
  to_number :: "json \<Rightarrow> jsnum"
  js_add :: "json \<Rightarrow> json \<Rightarrow> json"
  js_sub :: "json \<Rightarrow> json \<Rightarrow> json"
  js_mul :: "json \<Rightarrow> json \<Rightarrow> json"
  js_div :: "json \<Rightarrow> json \<Rightarrow> json"
  js_neg :: "json \<Rightarrow> json"
  parseInt16 :: "string \<Rightarrow> json"
  type_error :: "string \<Rightarrow> json \<Rightarrow> string"
  JSON_stringify :: "json \<Rightarrow> string"
  Math_random :: "nat \<Rightarrow> json"
  dirname :: "string \<Rightarrow> string"
  mkdir :: "filesystem \<Rightarrow> string \<Rightarrow> filesystem \<times> js_exn option"
  statSync_size :: "filesystem \<Rightarrow> json \<Rightarrow> js_exn + json"
  sharp_metadata :: "filesystem \<Rightarrow> json \<Rightarrow> js_exn + (string \<times> json) list"
  sharp_stats :: "filesystem \<Rightarrow> json \<Rightarrow> js_exn + (string \<times> json) list"
  sharp_toFile :: "filesystem \<Rightarrow> sharp_input \<Rightarrow> sharp_op list \<Rightarrow> json \<Rightarrow> js_exn + string"
  Vips :: "nat \<Rightarrow> js_exn option"
  vips_writeToFile :: "filesystem \<Rightarrow> string \<Rightarrow> json list \<Rightarrow> js_exn + string"
  vips_stats :: "filesystem \<Rightarrow> string \<Rightarrow> json list \<Rightarrow> js_exn + (string \<times> json) list"

section \<open>Built-ins the model computes\<close>

text \<open>Truthiness, as \<^verbatim>\<open>if (x)\<close>, \<^verbatim>\<open>!x\<close>, \<^verbatim>\<open>x || y\<close> and \<^verbatim>\<open>x ? a : b\<close> use it.\<close>

fun truthy :: "json \<Rightarrow> bool" where
  "truthy JUndef = False"
| "truthy JNull = False"
| "truthy (JBool b) = b"
| "truthy (JNum (Fin r)) = (r \<noteq> 0)"
| "truthy (JNum NaN) = False"
| "truthy (JNum PInf) = True"
| "truthy (JNum NInf) = True"
| "truthy (JStr s) = (s \<noteq> [])"
| "truthy (JArr xs) = True"
| "truthy (JObj kvs) = True"

text \<open>\<^verbatim>\<open>x || d\<close>\<close>

definition js_or :: "json \<Rightarrow> json \<Rightarrow> json" where
  "js_or x d = (if truthy x then x else d)"

text \<open>A destructuring default \<^verbatim>\<open>{ x = d }\<close> replaces only \<^verbatim>\<open>undefined\<close>.\<close>

definition dflt :: "json \<Rightarrow> json \<Rightarrow> json" where
  "dflt x d = (if x = JUndef then d else x)"

text \<open>Decimal digits of a natural number, as \<^verbatim>\<open>String(n)\<close> prints an integer below \<open>10^21\<close>.\<close>

fun digits :: "nat \<Rightarrow> string" where
  "digits n = (if n < 10 then [''0123456789'' ! n]
               else digits (n div 10) @ [''0123456789'' ! (n mod 10)])"

declare digits.simps [simp del]

text \<open>
  \<^verbatim>\<open>String(v)\<close>, the conversion of a template literal. Strings, \<^verbatim>\<open>undefined\<close>, \<^verbatim>\<open>null\<close>,
  booleans and integers of absolute value below \<open>10^21\<close> are computed here; the other
  numbers, arrays and objects are left to the engine.
\<close>

definition String_of :: "env \<Rightarrow> json \<Rightarrow> string" where
  "String_of env v =
     (case v of
        JStr s \<Rightarrow> s
      | JUndef \<Rightarrow> ''undefined''
      | JNull \<Rightarrow> ''null''
      | JBool b \<Rightarrow> (if b then ''true'' else ''false'')
      | JNum (Fin r) \<Rightarrow>
          (if of_int \<lfloor>r\<rfloor> = r \<and> \<bar>r\<bar> < 10 ^ 21
           then (if r < 0 then ''-'' @ digits (nat (- \<lfloor>r\<rfloor>)) else digits (nat \<lfloor>r\<rfloor>))
           else to_string env v)
      | _ \<Rightarrow> to_string env v)"

text \<open>\<^verbatim>\<open>ToNumber\<close>: a number is itself, anything else is coerced by the engine.\<close>

definition ToNumber :: "env \<Rightarrow> json \<Rightarrow> jsnum" where
  "ToNumber env v = (case v of JNum x \<Rightarrow> x | _ \<Rightarrow> to_number env v)"

text \<open>\<^verbatim>\<open>Math.floor\<close> is exact on a finite double and keeps the special values.\<close>

definition Math_floor :: "env \<Rightarrow> json \<Rightarrow> json" where
  "Math_floor env v =
     (case ToNumber env v of Fin r \<Rightarrow> num (of_int \<lfloor>r\<rfloor>) | x \<Rightarrow> JNum x)"

text \<open>\<^verbatim>\<open>level < levels\<close> for a loop counter \<open>level\<close>: comparison of doubles is exact.\<close>

definition js_less :: "env \<Rightarrow> nat \<Rightarrow> json \<Rightarrow> bool" where
  "js_less env level levels =
     (case ToNumber env levels of
        Fin r \<Rightarrow> of_nat level < r
      | PInf \<Rightarrow> True
      | _ \<Rightarrow> False)"

text \<open>Property read \<^verbatim>\<open>o.k\<close> on an object a library returned.\<close>

fun lookup :: "(string \<times> json) list \<Rightarrow> string \<Rightarrow> json" where
  "lookup [] k = JUndef"
| "lookup ((k', v) # kvs) k = (if k' = k then v else lookup kvs k)"

definition get_prop :: "json \<Rightarrow> string \<Rightarrow> json" where
  "get_prop v k = (case v of JObj kvs \<Rightarrow> lookup kvs k | _ \<Rightarrow> JUndef)"

text \<open>Assignment \<^verbatim>\<open>o.k = v\<close> on an object literal built in the handler.\<close>

fun obj_set :: "(string \<times> json) list \<Rightarrow> string \<Rightarrow> json \<Rightarrow> (string \<times> json) list" where
  "obj_set [] k v = [(k, v)]"
| "obj_set ((k', v') # kvs) k v = (if k' = k then (k, v) # kvs else (k', v') # obj_set kvs k v)"

text \<open>\<^verbatim>\<open>s.replace('#', '')\<close> removes the first \<^verbatim>\<open>#\<close>; \<^verbatim>\<open>s.substr(i, 2)\<close>.\<close>

fun remove_hash :: "string \<Rightarrow> string" where
  "remove_hash [] = []"
| "remove_hash (c # cs) = (if c = CHR ''#'' then cs else c # remove_hash cs)"

definition substr :: "string \<Rightarrow> nat \<Rightarrow> nat \<Rightarrow> string" where
  "substr s i n = take n (drop i s)"

text \<open>
  The response of a tool call: \<^verbatim>\<open>{ content: [{ type, text }], isError? }\<close>. The field
  \<^verbatim>\<open>isError\<close> is absent from the object literal of a success.
\<close>

record content_item =
  ctype :: string
  ctext :: string

record response =
  content :: "content_item list"
  isError :: "bool option"

definition text_response :: "string \<Rightarrow> response" where
  "text_response t = \<lparr>content = [\<lparr>ctype = ''text'', ctext = t\<rparr>], isError = None\<rparr>"

record request =
  tool_name :: string
  arguments :: "(string \<Rightarrow> json) option"

text \<open>
  What a case of the handler leaves behind: the response it returns or the value it
  throws, with the filesystem and the server's state at that moment.
\<close>

type_synonym outcome = "(js_exn + response) \<times> filesystem \<times> server_state"

text \<open>The engine's \<^verbatim>\<open>TypeError\<close> at the expression \<open>what\<close>, evaluated on \<open>v\<close>.\<close>

definition TypeError :: "env \<Rightarrow> string \<Rightarrow> json \<Rightarrow> js_exn" where
  "TypeError env what v = ErrorObj ''TypeError'' (type_error env what v)"

text \<open>\<^verbatim>\<open>v.length\<close>, \<^verbatim>\<open>v[0]\<close> and \<^verbatim>\<open>v.flat()\<close> on a request argument.\<close>

definition js_length :: "env \<Rightarrow> json \<Rightarrow> js_exn + json" where
  "js_length env v =
     (case v of
        JUndef \<Rightarrow> Inl (TypeError env ''length'' v)
      | JNull \<Rightarrow> Inl (TypeError env ''length'' v)
      | JArr xs \<Rightarrow> Inr (num (of_nat (length xs)))
      | JStr s \<Rightarrow> Inr (num (of_nat (length s)))
      | JObj kvs \<Rightarrow> Inr (lookup kvs ''length'')
      | _ \<Rightarrow> Inr JUndef)"

definition js_index0 :: "env \<Rightarrow> json \<Rightarrow> js_exn + json" where
  "js_index0 env v =
     (case v of
        JUndef \<Rightarrow> Inl (TypeError env ''[0]'' v)
      | JNull \<Rightarrow> Inl (TypeError env ''[0]'' v)
      | JArr xs \<Rightarrow> Inr (case xs of [] \<Rightarrow> JUndef | x # _ \<Rightarrow> x)
      | JStr s \<Rightarrow> Inr (case s of [] \<Rightarrow> JUndef | c # _ \<Rightarrow> JStr [c])
      | JObj kvs \<Rightarrow> Inr (lookup kvs ''0'')
      | _ \<Rightarrow> Inr JUndef)"

definition js_flat :: "env \<Rightarrow> json \<Rightarrow> js_exn + json" where
  "js_flat env v =
     (case v of
        JArr xs \<Rightarrow> Inr (JArr (concat (map (\<lambda>x. case x of JArr ys \<Rightarrow> ys | _ \<Rightarrow> [x]) xs)))
      | _ \<Rightarrow> Inl (TypeError env ''flat'' v))"

text \<open>\<^verbatim>\<open>Buffer.from(svg)\<close>, handed to Sharp as an overlay.\<close>

definition Buffer_from :: "string \<Rightarrow> json" where
  "Buffer_from s = JObj [(''type'', JStr ''Buffer''), (''data'', JStr s)]"

text \<open>The two marks that open the texts of the enhanced operations, in UTF-8.\<close>

definition sparkles :: string where
  "sparkles = [CHR 0xE2, CHR 0x9C, CHR 0xA8]"

definition zap :: string where
  "zap = [CHR 0xE2, CHR 0x9A, CHR 0xA1]"

definition newline :: string where
  "newline = [CHR 0x0A]"

section \<open>Helpers of the server\<close>

text \<open>\<^verbatim>\<open>existsSync\<close> answers \<^verbatim>\<open>false\<close> for a path that is not a string.\<close>

definition existsSync :: "filesystem \<Rightarrow> json \<Rightarrow> bool" where
  "existsSync fs p =
     (case p of JStr s \<Rightarrow> files fs s \<noteq> None \<or> s \<in> dirs fs | _ \<Rightarrow> False)"

text \<open>A library call that returned stores its bytes at the output path.\<close>

definition write_file :: "filesystem \<Rightarrow> json \<Rightarrow> string \<Rightarrow> filesystem" where
  "write_file fs p bytes =
     (case p of JStr s \<Rightarrow> fs\<lparr>files := (files fs)(s \<mapsto> bytes)\<rparr> | _ \<Rightarrow> fs)"

text \<open>
  \<^verbatim>\<open>initVips\<close>: \<^verbatim>\<open>if (!vips) { vips = await Vips(); ... } return vips;\<close>. A rejected
  \<^verbatim>\<open>Vips()\<close> leaves the variable \<^verbatim>\<open>null\<close>.
\<close>

definition initVips :: "env \<Rightarrow> server_state \<Rightarrow> (js_exn + nat) \<times> server_state" where
  "initVips env st =
     (case vips st of
        Some h \<Rightarrow> (Inr h, st)
      | None \<Rightarrow>
          (case Vips env (vips_loads st) of
             Some e \<Rightarrow> (Inl e, st\<lparr>vips_loads := Suc (vips_loads st)\<rparr>)
           | None \<Rightarrow>
               (Inr (vips_loads st),
                st\<lparr>vips := Some (vips_loads st), vips_loads := Suc (vips_loads st)\<rparr>)))"

text \<open>
  \<^verbatim>\<open>ensureDirectoryExists\<close>: \<^verbatim>\<open>dirname(filePath)\<close> stands before the \<^verbatim>\<open>try\<close> and throws
  on a path that is not a string; whatever \<^verbatim>\<open>mkdir\<close> throws is swallowed.
\<close>

definition ensureDirectoryExists :: "env \<Rightarrow> filesystem \<Rightarrow> json \<Rightarrow> js_exn + filesystem" where
  "ensureDirectoryExists env fs filePath =
     (case filePath of
        JStr p \<Rightarrow> Inr (fst (mkdir env fs (dirname env p)))
      | _ \<Rightarrow> Inl (TypeError env ''dirname'' filePath))"

text \<open>\<^verbatim>\<open>getImageInfo\<close>\<close>

definition getImageInfo :: "env \<Rightarrow> filesystem \<Rightarrow> json \<Rightarrow> js_exn + json" where
  "getImageInfo env fs imagePath =
     (case sharp_metadata env fs imagePath of
        Inl e \<Rightarrow> Inl e
      | Inr metadata \<Rightarrow>
          (case sharp_stats env fs imagePath of
             Inl e \<Rightarrow> Inl e
           | Inr stats \<Rightarrow>
               (case statSync_size env fs imagePath of
                  Inl e \<Rightarrow> Inl e
                | Inr sz \<Rightarrow>
                    Inr (JObj
                      [(''format'', lookup metadata ''format''),
                       (''width'', lookup metadata ''width''),
                       (''height'', lookup metadata ''height''),
                       (''channels'', lookup metadata ''channels''),
                       (''density'', lookup metadata ''density''),
                       (''hasProfile'', lookup metadata ''hasProfile''),
                       (''hasAlpha'', lookup metadata ''hasAlpha''),
                       (''orientation'', lookup metadata ''orientation''),
                       (''colorspace'', lookup metadata ''space''),
                       (''size'', sz),
                       (''stats'', JObj stats)]))))"

section \<open>The patterns the cases of the handler repeat\<close>

text \<open>
  \<^verbatim>\<open>const { ... } = args as any\<close>: destructuring throws when the request carries no
  \<^verbatim>\<open>arguments\<close>.
\<close>

definition destructure ::
  "env \<Rightarrow> filesystem \<Rightarrow> server_state \<Rightarrow> (string \<Rightarrow> json) option \<Rightarrow>
   ((string \<Rightarrow> json) \<Rightarrow> outcome) \<Rightarrow> outcome" where
  "destructure env fs st args body =
     (case args of
        None \<Rightarrow> (Inl (TypeError env ''destructure'' JUndef), fs, st)
      | Some a \<Rightarrow> body a)"

text \<open>
  The opening of a case that reads \<^verbatim>\<open>input_path\<close>:
  \<^verbatim>\<open>if (!existsSync(input_path)) { throw new Error(`Input image not found: ${input_path}`); }\<close>
\<close>

definition input_exists ::
  "env \<Rightarrow> filesystem \<Rightarrow> server_state \<Rightarrow> json \<Rightarrow> outcome \<Rightarrow> outcome" where
  "input_exists env fs st input_path rest =
     (if \<not> existsSync fs input_path
      then (Inl (Error (''Input image not found: '' @ String_of env input_path)), fs, st)
      else rest)"

text \<open>\<^verbatim>\<open>await ensureDirectoryExists(output_path);\<close> and the statements after it.\<close>

definition ensured ::
  "env \<Rightarrow> filesystem \<Rightarrow> server_state \<Rightarrow> json \<Rightarrow> (filesystem \<Rightarrow> outcome) \<Rightarrow> outcome" where
  "ensured env fs st output_path rest =
     (case ensureDirectoryExists env fs output_path of
        Inl e \<Rightarrow> (Inl e, fs, st)
      | Inr fs1 \<Rightarrow> rest fs1)"

text \<open>
  \<^verbatim>\<open>await sharp(...)...toFile(output_path); return { content: [{ type: 'text', text }] };\<close>
\<close>

definition toFile_return ::
  "env \<Rightarrow> filesystem \<Rightarrow> server_state \<Rightarrow> sharp_input \<Rightarrow> sharp_op list \<Rightarrow> json \<Rightarrow> string \<Rightarrow>
   outcome" where
  "toFile_return env fs st inp ops output_path t =
     (case sharp_toFile env fs inp ops output_path of
        Inl e \<Rightarrow> (Inl e, fs, st)
      | Inr bytes \<Rightarrow> (Inr (text_response t), write_file fs output_path bytes, st))"

text \<open>
  \<^verbatim>\<open>try { block } catch (error) { ... }\<close>: the catch block starts from the filesystem and
  the state the block had reached when it threw.
\<close>

definition try_catch :: "outcome \<Rightarrow> (js_exn \<Rightarrow> filesystem \<Rightarrow> server_state \<Rightarrow> outcome) \<Rightarrow> outcome" where
  "try_catch block catch_block =
     (case block of
        (Inl e, fs, st) \<Rightarrow> catch_block e fs st
      | (Inr r, fs, st) \<Rightarrow> (Inr r, fs, st))"

text \<open>
  The start of a wasm-vips block: \<^verbatim>\<open>await initVips();\<close> and then the library calls of
  the block, which run only when the handle is there.
\<close>

definition with_vips ::
  "env \<Rightarrow> filesystem \<Rightarrow> server_state \<Rightarrow> (server_state \<Rightarrow> outcome) \<Rightarrow> outcome" where
  "with_vips env fs st rest =
     (case initVips env st of
        (Inl e, st1) \<Rightarrow> (Inl e, fs, st1)
      | (Inr h, st1) \<Rightarrow> rest st1)"

text \<open>
  The wasm-vips calls of a block that ends in \<^verbatim>\<open>result.writeToFile(output_path)\<close> and
  returns a text.
\<close>

definition writeToFile_return ::
  "env \<Rightarrow> filesystem \<Rightarrow> server_state \<Rightarrow> string \<Rightarrow> json list \<Rightarrow> json \<Rightarrow> string \<Rightarrow> outcome" where
  "writeToFile_return env fs st tool vals output_path t =
     (case vips_writeToFile env fs tool vals of
        Inl e \<Rightarrow> (Inl e, fs, st)
      | Inr bytes \<Rightarrow> (Inr (text_response t), write_file fs output_path bytes, st))"

section \<open>The cases of the tool handler: operations on Sharp alone\<close>

type_synonym tool_case =
  "env \<Rightarrow> filesystem \<Rightarrow> server_state \<Rightarrow> (string \<Rightarrow> json) option \<Rightarrow> outcome"

definition image_info :: tool_case where
  "image_info env fs st args =
     destructure env fs st args (\<lambda>a.
       let image_path = a ''image_path'' in
       if \<not> existsSync fs image_path
       then (Inl (Error (''Image file not found: '' @ String_of env image_path)), fs, st)
       else
         (case getImageInfo env fs image_path of
            Inl e \<Rightarrow> (Inl e, fs, st)
          | Inr info \<Rightarrow> (Inr (text_response (JSON_stringify env info)), fs, st)))"

text \<open>
  \<^verbatim>\<open>const resizeOptions: any = { fit }; if (width) ...; if (height) ...;
  if (!maintain_aspect_ratio) resizeOptions.fit = 'fill';\<close>
\<close>

definition resizeOptions :: "json \<Rightarrow> json \<Rightarrow> json \<Rightarrow> json \<Rightarrow> (string \<times> json) list" where
  "resizeOptions width height maintain_aspect_ratio fit =
     (let o0 = [(''fit'', fit)];
          o1 = (if truthy width then obj_set o0 ''width'' width else o0);
          o2 = (if truthy height then obj_set o1 ''height'' height else o1)
      in if \<not> truthy maintain_aspect_ratio then obj_set o2 ''fit'' (JStr ''fill'') else o2)"

definition image_resize :: tool_case where
  "image_resize env fs st args =
     destructure env fs st args (\<lambda>a.
       let input_path = a ''input_path''; output_path = a ''output_path'';
           width = a ''width''; height = a ''height'';
           maintain_aspect_ratio = dflt (a ''maintain_aspect_ratio'') (JBool True);
           fit = dflt (a ''fit'') (JStr ''cover'')
       in input_exists env fs st input_path
            (ensured env fs st output_path (\<lambda>fs1.
               toFile_return env fs1 st (FromPath input_path)
                 [SOp ''resize'' [JObj (resizeOptions width height maintain_aspect_ratio fit)]]
                 output_path
                 (''Image resized successfully: '' @ String_of env output_path))))"

text \<open>
  The \<^verbatim>\<open>switch (format)\<close> of \<^verbatim>\<open>image_convert\<close>: six cases and no \<^verbatim>\<open>default\<close>, so any
  other value leaves the pipeline as \<^verbatim>\<open>sharp(input_path)\<close>.
\<close>

definition format_ops :: "json \<Rightarrow> json \<Rightarrow> sharp_op list" where
  "format_ops format quality =
     (if format = JStr ''jpeg'' then [SOp ''jpeg'' [JObj [(''quality'', js_or quality (num 80))]]]
      else if format = JStr ''png'' then [SOp ''png'' [JObj [(''quality'', js_or quality (num 80))]]]
      else if format = JStr ''webp'' then [SOp ''webp'' [JObj [(''quality'', js_or quality (num 80))]]]
      else if format = JStr ''tiff'' then [SOp ''tiff'' [JObj [(''quality'', js_or quality (num 80))]]]
      else if format = JStr ''avif'' then [SOp ''avif'' [JObj [(''quality'', js_or quality (num 80))]]]
      else if format = JStr ''heif'' then [SOp ''heif'' [JObj [(''quality'', js_or quality (num 80))]]]
      else [])"

definition image_convert :: tool_case where
  "image_convert env fs st args =
     destructure env fs st args (\<lambda>a.
       let input_path = a ''input_path''; output_path = a ''output_path'';
           format = a ''format''; quality = a ''quality''
       in input_exists env fs st input_path
            (ensured env fs st output_path (\<lambda>fs1.
               toFile_return env fs1 st (FromPath input_path) (format_ops format quality)
                 output_path
                 (''Image converted to '' @ String_of env format @ '': '' @
                  String_of env output_path))))"

definition image_crop :: tool_case where
  "image_crop env fs st args =
     destructure env fs st args (\<lambda>a.
       let input_path = a ''input_path''; output_path = a ''output_path'';
           x = a ''x''; y = a ''y''; width = a ''width''; height = a ''height''
       in input_exists env fs st input_path
            (ensured env fs st output_path (\<lambda>fs1.
               toFile_return env fs1 st (FromPath input_path)
                 [SOp ''extract''
                    [JObj [(''left'', x), (''top'', y), (''width'', width), (''height'', height)]]]
                 output_path
                 (''Image cropped successfully: '' @ String_of env output_path))))"

definition image_rotate :: tool_case where
  "image_rotate env fs st args =
     destructure env fs st args (\<lambda>a.
       let input_path = a ''input_path''; output_path = a ''output_path'';
           angle = a ''angle''; background = dflt (a ''background'') (JStr ''#000000'')
       in input_exists env fs st input_path
            (ensured env fs st output_path (\<lambda>fs1.
               toFile_return env fs1 st (FromPath input_path)
                 [SOp ''rotate'' [angle, JObj [(''background'', background)]]]
                 output_path
                 (''Image rotated by '' @ String_of env angle @ '' degrees: '' @
                  String_of env output_path))))"

definition image_flip :: tool_case where
  "image_flip env fs st args =
     destructure env fs st args (\<lambda>a.
       let input_path = a ''input_path''; output_path = a ''output_path'';
           direction = a ''direction''
       in input_exists env fs st input_path
            (ensured env fs st output_path (\<lambda>fs1.
               toFile_return env fs1 st (FromPath input_path)
                 (if direction = JStr ''horizontal'' then [SOp ''flop'' []] else [SOp ''flip'' []])
                 output_path
                 (''Image flipped '' @ String_of env direction @ ''ly: '' @
                  String_of env output_path))))"

definition image_blur :: tool_case where
  "image_blur env fs st args =
     destructure env fs st args (\<lambda>a.
       let input_path = a ''input_path''; output_path = a ''output_path'';
           sigma = dflt (a ''sigma'') (num 1)
       in input_exists env fs st input_path
            (ensured env fs st output_path (\<lambda>fs1.
               toFile_return env fs1 st (FromPath input_path) [SOp ''blur'' [sigma]]
                 output_path
                 (''Image blurred with sigma '' @ String_of env sigma @ '': '' @
                  String_of env output_path))))"

definition image_sharpen :: tool_case where
  "image_sharpen env fs st args =
     destructure env fs st args (\<lambda>a.
       let input_path = a ''input_path''; output_path = a ''output_path'';
           sigma = dflt (a ''sigma'') (num 1); flat = dflt (a ''flat'') (num 1);
           jagged = dflt (a ''jagged'') (num 2)
       in input_exists env fs st input_path
            (ensured env fs st output_path (\<lambda>fs1.
               toFile_return env fs1 st (FromPath input_path)
                 [SOp ''sharpen'' [sigma, flat, jagged]]
                 output_path
                 (''Image sharpened: '' @ String_of env output_path))))"

definition image_adjust_brightness :: tool_case where
  "image_adjust_brightness env fs st args =
     destructure env fs st args (\<lambda>a.
       let input_path = a ''input_path''; output_path = a ''output_path'';
           brightness = a ''brightness''
       in input_exists env fs st input_path
            (ensured env fs st output_path (\<lambda>fs1.
               toFile_return env fs1 st (FromPath input_path)
                 [SOp ''modulate''
                    [JObj [(''brightness'',
                            js_add env (num 1) (js_div env brightness (num 100)))]]]
                 output_path
                 (''Image brightness adjusted by '' @ String_of env brightness @ '': '' @
                  String_of env output_path))))"

definition image_adjust_contrast :: tool_case where
  "image_adjust_contrast env fs st args =
     destructure env fs st args (\<lambda>a.
       let input_path = a ''input_path''; output_path = a ''output_path'';
           contrast = a ''contrast''
       in input_exists env fs st input_path
            (ensured env fs st output_path (\<lambda>fs1.
               toFile_return env fs1 st (FromPath input_path)
                 [SOp ''linear''
                    [contrast,
                     js_add env (js_neg env (js_mul env (num 128) contrast)) (num 128)]]
                 output_path
                 (''Image contrast adjusted by '' @ String_of env contrast @ '': '' @
                  String_of env output_path))))"

definition image_adjust_saturation :: tool_case where
  "image_adjust_saturation env fs st args =
     destructure env fs st args (\<lambda>a.
       let input_path = a ''input_path''; output_path = a ''output_path'';
           saturation = a ''saturation''
       in input_exists env fs st input_path
            (ensured env fs st output_path (\<lambda>fs1.
               toFile_return env fs1 st (FromPath input_path)
                 [SOp ''modulate'' [JObj [(''saturation'', saturation)]]]
                 output_path
                 (''Image saturation adjusted by '' @ String_of env saturation @ '': '' @
                  String_of env output_path))))"

definition image_grayscale :: tool_case where
  "image_grayscale env fs st args =
     destructure env fs st args (\<lambda>a.
       let input_path = a ''input_path''; output_path = a ''output_path''
       in input_exists env fs st input_path
            (ensured env fs st output_path (\<lambda>fs1.
               toFile_return env fs1 st (FromPath input_path) [SOp ''grayscale'' []]
                 output_path
                 (''Image converted to grayscale: '' @ String_of env output_path))))"

definition image_composite :: tool_case where
  "image_composite env fs st args =
     destructure env fs st args (\<lambda>a.
       let base_image_path = a ''base_image_path'';
           overlay_image_path = a ''overlay_image_path'';
           output_path = a ''output_path'';
           x = dflt (a ''x'') (num 0); y = dflt (a ''y'') (num 0);
           blend = dflt (a ''blend'') (JStr ''over'')
       in if \<not> existsSync fs base_image_path
          then (Inl (Error (''Base image not found: '' @ String_of env base_image_path)), fs, st)
          else if \<not> existsSync fs overlay_image_path
          then (Inl (Error (''Overlay image not found: '' @ String_of env overlay_image_path)),
                fs, st)
          else ensured env fs st output_path (\<lambda>fs1.
                 toFile_return env fs1 st (FromPath base_image_path)
                   [SOp ''composite''
                      [JArr [JObj [(''input'', overlay_image_path), (''left'', x), (''top'', y),
                                   (''blend'', blend)]]]]
                   output_path
                   (''Images composited with '' @ String_of env blend @ '' blend mode: '' @
                    String_of env output_path)))"

definition image_thumbnail :: tool_case where
  "image_thumbnail env fs st args =
     destructure env fs st args (\<lambda>a.
       let input_path = a ''input_path''; output_path = a ''output_path'';
           sz = a ''size''; crop = dflt (a ''crop'') (JBool False)
       in input_exists env fs st input_path
            (ensured env fs st output_path (\<lambda>fs1.
               toFile_return env fs1 st (FromPath input_path)
                 (if truthy crop
                  then [SOp ''resize'' [sz, sz, JObj [(''fit'', JStr ''cover'')]]]
                  else [SOp ''resize''
                          [sz, sz, JObj [(''fit'', JStr ''inside''),
                                         (''withoutEnlargement'', JBool True)]]])
                 output_path
                 (''Thumbnail created ('' @ String_of env sz @ ''px): '' @
                  String_of env output_path))))"

definition image_extract_channel :: tool_case where
  "image_extract_channel env fs st args =
     destructure env fs st args (\<lambda>a.
       let input_path = a ''input_path''; output_path = a ''output_path'';
           channel = a ''channel''
       in input_exists env fs st input_path
            (ensured env fs st output_path (\<lambda>fs1.
               toFile_return env fs1 st (FromPath input_path)
                 [SOp ''extractChannel'' [channel]]
                 output_path
                 (''Channel '' @ String_of env channel @ '' extracted: '' @
                  String_of env output_path))))"

text \<open>
  \<^verbatim>\<open>stats.channels.map((channel, index) => ({ channel: index, min: channel.min, ... }))\<close>;
  \<^verbatim>\<open>.map\<close> is there only on an array.
\<close>

definition histogram_channels :: "env \<Rightarrow> json \<Rightarrow> js_exn + json" where
  "histogram_channels env channels =
     (case channels of
        JArr cs \<Rightarrow>
          Inr (JArr (map (\<lambda>(index, channel).
                 JObj [(''channel'', num (of_nat index)),
                       (''min'', get_prop channel ''min''),
                       (''max'', get_prop channel ''max''),
                       (''mean'', get_prop channel ''mean''),
                       (''stdev'', get_prop channel ''stdev'')])
               (enumerate 0 cs)))
      | _ \<Rightarrow> Inl (TypeError env ''map'' channels))"

definition image_histogram :: tool_case where
  "image_histogram env fs st args =
     destructure env fs st args (\<lambda>a.
       let input_path = a ''input_path''; bins = dflt (a ''bins'') (num 256)
       in input_exists env fs st input_path
            (case sharp_stats env fs input_path of
               Inl e \<Rightarrow> (Inl e, fs, st)
             | Inr stats \<Rightarrow>
                 (case histogram_channels env (lookup stats ''channels'') of
                    Inl e \<Rightarrow> (Inl e, fs, st)
                  | Inr channels \<Rightarrow>
                      (Inr (text_response (JSON_stringify env (JObj
                         [(''channels'', channels),
                          (''isOpaque'', lookup stats ''isOpaque''),
                          (''entropy'', lookup stats ''entropy''),
                          (''dominantColor'', lookup stats ''dominant'')]))), fs, st))))"

text \<open>
  \<^verbatim>\<open>create_solid_color\<close> reads no input file. \<^verbatim>\<open>color.replace\<close> exists only on a string.
\<close>

definition create_solid_color :: tool_case where
  "create_solid_color env fs st args =
     destructure env fs st args (\<lambda>a.
       let output_path = a ''output_path''; width = a ''width''; height = a ''height'';
           color = dflt (a ''color'') (JStr ''#FFFFFF'')
       in ensured env fs st output_path (\<lambda>fs1.
            (case color of
               JStr c \<Rightarrow>
                 (let hex = remove_hash c;
                      r = parseInt16 env (substr hex 0 2);
                      g = parseInt16 env (substr hex 2 2);
                      b = parseInt16 env (substr hex 4 2)
                  in toFile_return env fs1 st
                       (Create (JObj [(''create'', JObj
                          [(''width'', width), (''height'', height), (''channels'', num 3),
                           (''background'', JObj [(''r'', r), (''g'', g), (''b'', b)])])]))
                       [SOp ''png'' []]
                       output_path
                       (''Solid color image created ('' @ String_of env width @ ''x'' @
                        String_of env height @ '', '' @ String_of env color @ ''): '' @
                        String_of env output_path))
             | _ \<Rightarrow> (Inl (TypeError env ''replace'' color), fs1, st))))"

section \<open>The cases of the tool handler: wasm-vips first, Sharp in the catch block\<close>

text \<open>
  Eleven cases run wasm-vips inside \<^verbatim>\<open>try { ... }\<close> and Sharp inside
  \<^verbatim>\<open>catch (error) { ... }\<close>. The two blocks of a case are definitions of their own, each
  reading the destructured arguments it uses; the catch block never reads \<^verbatim>\<open>error\<close>.
  A decimal literal of the source is written by its decimal value.
\<close>

type_synonym try_block =
  "env \<Rightarrow> (string \<Rightarrow> json) \<Rightarrow> filesystem \<Rightarrow> server_state \<Rightarrow> outcome"

type_synonym catch_block =
  "env \<Rightarrow> (string \<Rightarrow> json) \<Rightarrow> js_exn \<Rightarrow> filesystem \<Rightarrow> server_state \<Rightarrow> outcome"

text \<open>
  A case with both blocks that writes \<^verbatim>\<open>output_path\<close>, and one that only reads the image.
\<close>

definition file_case :: "try_block \<Rightarrow> catch_block \<Rightarrow> tool_case" where
  "file_case try_b catch_b env fs st args =
     destructure env fs st args (\<lambda>a.
       let input_path = a ''input_path''; output_path = a ''output_path''
       in input_exists env fs st input_path
            (ensured env fs st output_path (\<lambda>fs1.
               try_catch (try_b env a fs1 st) (catch_b env a))))"

definition stats_case :: "try_block \<Rightarrow> catch_block \<Rightarrow> tool_case" where
  "stats_case try_b catch_b env fs st args =
     destructure env fs st args (\<lambda>a.
       let input_path = a ''input_path''
       in input_exists env fs st input_path
            (try_catch (try_b env a fs st) (catch_b env a)))"

subsection \<open>\<^verbatim>\<open>image_morphology\<close>\<close>

definition image_morphology_try :: try_block where
  "image_morphology_try env a fs st =
     (let input_path = a ''input_path''; output_path = a ''output_path'';
          operation = a ''operation''; kernel_size = dflt (a ''kernel_size'') (num 3);
          iterations = dflt (a ''iterations'') (num 1)
      in with_vips env fs st (\<lambda>st1.
           writeToFile_return env fs st1 ''image_morphology''
             [input_path, output_path, operation, kernel_size, iterations]
             output_path
             (sparkles @ '' Morphological '' @ String_of env operation @
              '' applied ('' @ String_of env iterations @ '' iterations, '' @
              String_of env kernel_size @ ''x'' @ String_of env kernel_size @
              '' kernel): '' @ String_of env output_path)))"

definition morphology_fallback_ops :: "json \<Rightarrow> sharp_op list" where
  "morphology_fallback_ops operation =
     (if operation = JStr ''erode''
      then [SOp ''blur'' [num (1/2)], SOp ''threshold'' [num 120]]
      else if operation = JStr ''dilate''
      then [SOp ''blur'' [num 1], SOp ''modulate'' [JObj [(''brightness'', num (115/100))]]]
      else if operation = JStr ''opening''
      then [SOp ''blur'' [num (1/2)], SOp ''threshold'' [num 120], SOp ''blur'' [num 1]]
      else if operation = JStr ''closing''
      then [SOp ''blur'' [num 1], SOp ''modulate'' [JObj [(''brightness'', num (115/100))]],
            SOp ''blur'' [num (1/2)]]
      else [])"

definition image_morphology_catch :: catch_block where
  "image_morphology_catch env a error fs st =
     (let input_path = a ''input_path''; output_path = a ''output_path'';
          operation = a ''operation''
      in toFile_return env fs st (FromPath input_path)
           (morphology_fallback_ops operation)
           output_path
           (zap @ '' Morphological '' @ String_of env operation @
            '' applied (Sharp fallback): '' @ String_of env output_path))"

definition image_morphology :: tool_case where
  "image_morphology = file_case image_morphology_try image_morphology_catch"

subsection \<open>\<^verbatim>\<open>image_draw_line\<close>\<close>

definition image_draw_line_try :: try_block where
  "image_draw_line_try env a fs st =
     (let input_path = a ''input_path''; output_path = a ''output_path'';
          x1 = a ''x1''; y1 = a ''y1''; x2 = a ''x2''; y2 = a ''y2'';
          color = dflt (a ''color'') (JStr ''#000000'')
      in with_vips env fs st (\<lambda>st1.
           writeToFile_return env fs st1 ''image_draw_line''
             [input_path, output_path, color, x1, y1, x2, y2]
             output_path
             (sparkles @ '' Line drawn from ('' @ String_of env x1 @ '','' @
              String_of env y1 @ '') to ('' @ String_of env x2 @ '','' @
              String_of env y2 @ '') with color '' @ String_of env color @ '': '' @
              String_of env output_path)))"

definition line_svg :: "env \<Rightarrow> json \<Rightarrow> json \<Rightarrow> json \<Rightarrow> json \<Rightarrow> json \<Rightarrow> json \<Rightarrow> json \<Rightarrow> json \<Rightarrow> string" where
  \<open>line_svg env imgWidth imgHeight x1 y1 x2 y2 color lineWidth =
     ''<svg width="'' @ String_of env imgWidth @ ''" height="'' @ String_of env imgHeight @
     ''" xmlns="http://www.w3.org/2000/svg">'' @ newline @
     ''            <line x1="'' @ String_of env x1 @ ''" y1="'' @ String_of env y1 @
     ''" x2="'' @ String_of env x2 @ ''" y2="'' @ String_of env y2 @
     ''" stroke="'' @ String_of env color @ ''" stroke-width="'' @ String_of env lineWidth @
     ''"/>'' @ newline @
     ''          </svg>''\<close>

definition image_draw_line_catch :: catch_block where
  "image_draw_line_catch env a error fs st =
     (let input_path = a ''input_path''; output_path = a ''output_path'';
          x1 = a ''x1''; y1 = a ''y1''; x2 = a ''x2''; y2 = a ''y2'';
          color = dflt (a ''color'') (JStr ''#000000'');
          lineWidth = dflt (a ''width'') (num 1)
      in case sharp_metadata env fs input_path of
           Inl e \<Rightarrow> (Inl e, fs, st)
         | Inr metadata \<Rightarrow>
             toFile_return env fs st (FromPath input_path)
               [SOp ''composite''
                  [JArr [JObj [(''input'', Buffer_from
                      (line_svg env (lookup metadata ''width'') (lookup metadata ''height'')
                         x1 y1 x2 y2 color lineWidth)),
                     (''blend'', JStr ''over'')]]]]
               output_path
               (zap @ '' Line drawn from ('' @ String_of env x1 @ '','' @
                String_of env y1 @ '') to ('' @ String_of env x2 @ '','' @
                String_of env y2 @ '') (Sharp SVG): '' @ String_of env output_path))"

definition image_draw_line :: tool_case where
  "image_draw_line = file_case image_draw_line_try image_draw_line_catch"

subsection \<open>\<^verbatim>\<open>image_draw_circle\<close>\<close>

definition circle_svg :: "env \<Rightarrow> json \<Rightarrow> json \<Rightarrow> json \<Rightarrow> json \<Rightarrow> json \<Rightarrow> json \<Rightarrow> json \<Rightarrow> string" where
  \<open>circle_svg env imgWidth imgHeight x y radius fill color =
     ''<svg width="'' @ String_of env imgWidth @ ''" height="'' @ String_of env imgHeight @
     ''" xmlns="http://www.w3.org/2000/svg">'' @ newline @
     ''          <circle cx="'' @ String_of env x @ ''" cy="'' @ String_of env y @
     ''" r="'' @ String_of env radius @ ''" stroke="'' @ String_of env color @ ''" '' @
     (if truthy fill then ''fill="'' @ String_of env color @ ''"'' else ''fill="none"'') @
     '' stroke-width="2"/>'' @ newline @
     ''        </svg>''\<close>

text \<open>\<^verbatim>\<open>image_draw_circle\<close> has no \<^verbatim>\<open>try\<close>: it draws with Sharp only.\<close>

definition image_draw_circle :: tool_case where
  "image_draw_circle env fs st args =
     destructure env fs st args (\<lambda>a.
       let input_path = a ''input_path''; output_path = a ''output_path'';
           x = a ''x''; y = a ''y''; radius = a ''radius'';
           fill = dflt (a ''fill'') (JBool False);
           color = dflt (a ''color'') (JStr ''#000000'')
       in input_exists env fs st input_path
            (ensured env fs st output_path (\<lambda>fs1.
               (case sharp_metadata env fs1 input_path of
                  Inl e \<Rightarrow> (Inl e, fs1, st)
                | Inr metadata \<Rightarrow>
                    toFile_return env fs1 st (FromPath input_path)
                      [SOp ''composite''
                         [JArr [JObj [(''input'', Buffer_from
                             (circle_svg env (lookup metadata ''width'')
                                (lookup metadata ''height'') x y radius fill color)),
                            (''blend'', JStr ''over'')]]]]
                      output_path
                      (sparkles @ '' '' @ (if truthy fill then ''Filled '' else []) @
                       ''Circle drawn at ('' @ String_of env x @ '','' @ String_of env y @
                       '') radius '' @ String_of env radius @ '': '' @
                       String_of env output_path)))))"

subsection \<open>\<^verbatim>\<open>image_edge_detection\<close>\<close>

text \<open>The \<^verbatim>\<open>switch (method)\<close> of edge detection; its \<^verbatim>\<open>default\<close> throws.\<close>

definition edge_kernel :: "json \<Rightarrow> json option" where
  "edge_kernel method =
     (if method = JStr ''sobel''
      then Some (JArr [JArr [num (-1), num 0, num 1], JArr [num (-2), num 0, num 2],
                       JArr [num (-1), num 0, num 1]])
      else if method = JStr ''prewitt''
      then Some (JArr [JArr [num (-1), num 0, num 1], JArr [num (-1), num 0, num 1],
                       JArr [num (-1), num 0, num 1]])
      else if method = JStr ''roberts''
      then Some (JArr [JArr [num 1, num 0], JArr [num 0, num (-1)]])
      else if method = JStr ''laplacian''
      then Some (JArr [JArr [num 0, num (-1), num 0], JArr [num (-1), num 4, num (-1)],
                       JArr [num 0, num (-1), num 0]])
      else None)"

definition image_edge_detection_try :: try_block where
  "image_edge_detection_try env a fs st =
     (let input_path = a ''input_path''; output_path = a ''output_path'';
          method = a ''method''
      in with_vips env fs st (\<lambda>st1.
           (case edge_kernel method of
              None \<Rightarrow>
                (Inl (Error (''Unknown edge detection method: '' @ String_of env method)),
                 fs, st1)
            | Some kernel_rows \<Rightarrow>
                writeToFile_return env fs st1 ''image_edge_detection''
                  [input_path, output_path, kernel_rows]
                  output_path
                  (sparkles @ '' '' @ String_of env method @
                   '' edge detection applied: '' @ String_of env output_path))))"

definition image_edge_detection_catch :: catch_block where
  "image_edge_detection_catch env a error fs st =
     (let input_path = a ''input_path''; output_path = a ''output_path''
      in toFile_return env fs st (FromPath input_path)
           [SOp ''grayscale'' [],
            SOp ''convolve''
              [JObj [(''width'', num 3), (''height'', num 3),
                     (''kernel'', JArr [num (-1), num (-1), num (-1), num (-1), num 8,
                                        num (-1), num (-1), num (-1), num (-1)])]]]
           output_path
           (zap @ '' Edge detection applied (Sharp fallback): '' @ String_of env output_path))"

definition image_edge_detection :: tool_case where
  "image_edge_detection = file_case image_edge_detection_try image_edge_detection_catch"

subsection \<open>\<^verbatim>\<open>image_advanced_stats\<close>\<close>

definition image_advanced_stats_try :: try_block where
  "image_advanced_stats_try env a fs st =
     (let input_path = a ''input_path''
      in with_vips env fs st (\<lambda>st1.
           (case vips_stats env fs ''image_advanced_stats'' [input_path] of
              Inl e \<Rightarrow> (Inl e, fs, st1)
            | Inr stats \<Rightarrow>
                (Inr (text_response (sparkles @ '' Advanced Statistics (wasm-vips):'' @
                   newline @ JSON_stringify env (JObj stats))), fs, st1))))"

definition image_advanced_stats_catch :: catch_block where
  "image_advanced_stats_catch env a error fs st =
     (let input_path = a ''input_path''
      in case sharp_metadata env fs input_path of
           Inl e \<Rightarrow> (Inl e, fs, st)
         | Inr metadata \<Rightarrow>
             (case sharp_stats env fs input_path of
                Inl e \<Rightarrow> (Inl e, fs, st)
              | Inr stats \<Rightarrow>
                  (Inr (text_response (zap @ '' Basic Statistics (Sharp):'' @ newline @
                     JSON_stringify env
                       (JObj [(''metadata'', JObj metadata), (''stats'', JObj stats)]))),
                   fs, st)))"

definition image_advanced_stats :: tool_case where
  "image_advanced_stats = stats_case image_advanced_stats_try image_advanced_stats_catch"

subsection \<open>\<^verbatim>\<open>image_fft\<close>\<close>

definition image_fft_try :: try_block where
  "image_fft_try env a fs st =
     (let input_path = a ''input_path''; output_path = a ''output_path'';
          inverse = dflt (a ''inverse'') (JBool False)
      in with_vips env fs st (\<lambda>st1.
           writeToFile_return env fs st1 ''image_fft''
             [input_path, output_path, JBool (truthy inverse)]
             output_path
             (sparkles @ '' '' @ (if truthy inverse then ''Inverse '' else []) @
              ''FFT applied successfully: '' @ String_of env output_path)))"

definition image_fft_catch :: catch_block where
  "image_fft_catch env a error fs st =
     (let input_path = a ''input_path''; output_path = a ''output_path''
      in toFile_return env fs st (FromPath input_path)
           [SOp ''convolve''
              [JObj [(''width'', num 3), (''height'', num 3),
                     (''kernel'', JArr [num 0, num (-1), num 0, num (-1), num 5,
                                        num (-1), num 0, num (-1), num 0])]]]
           output_path
           (zap @ '' Edge enhancement applied (FFT fallback): '' @ String_of env output_path))"

definition image_fft :: tool_case where
  "image_fft = file_case image_fft_try image_fft_catch"

subsection \<open>\<^verbatim>\<open>image_custom_convolution\<close>\<close>

text \<open>
  The text of the wasm-vips block reads \<^verbatim>\<open>kernel.length\<close> and \<^verbatim>\<open>kernel[0].length\<close> after
  the file is written; the catch block reads \<^verbatim>\<open>kernel.flat()\<close>, \<^verbatim>\<open>kernel[0].length\<close> and
  \<^verbatim>\<open>kernel.length\<close> before Sharp runs.
\<close>

definition image_custom_convolution_try :: try_block where
  "image_custom_convolution_try env a fs st =
     (let input_path = a ''input_path''; output_path = a ''output_path'';
          kernel = a ''kernel''; scale = dflt (a ''scale'') (num 1);
          offset = dflt (a ''offset'') (num 0)
      in with_vips env fs st (\<lambda>st1.
           (case vips_writeToFile env fs ''image_custom_convolution''
                   [input_path, output_path, kernel, scale, offset] of
              Inl e \<Rightarrow> (Inl e, fs, st1)
            | Inr bytes \<Rightarrow>
                (let fs2 = write_file fs output_path bytes in
                 case js_length env kernel of
                   Inl e \<Rightarrow> (Inl e, fs2, st1)
                 | Inr rows \<Rightarrow>
                     (case js_index0 env kernel of
                        Inl e \<Rightarrow> (Inl e, fs2, st1)
                      | Inr kernel0 \<Rightarrow>
                          (case js_length env kernel0 of
                             Inl e \<Rightarrow> (Inl e, fs2, st1)
                           | Inr cols \<Rightarrow>
                               (Inr (text_response (sparkles @
                                  '' Custom convolution applied ('' @
                                  String_of env rows @ ''x'' @ String_of env cols @
                                  '' kernel): '' @ String_of env output_path)),
                                fs2, st1)))))))"

definition image_custom_convolution_catch :: catch_block where
  "image_custom_convolution_catch env a error fs st =
     (let input_path = a ''input_path''; output_path = a ''output_path'';
          kernel = a ''kernel''; scale = dflt (a ''scale'') (num 1);
          offset = dflt (a ''offset'') (num 0)
      in case js_flat env kernel of
           Inl e \<Rightarrow> (Inl e, fs, st)
         | Inr flatKernel \<Rightarrow>
             (case js_index0 env kernel of
                Inl e \<Rightarrow> (Inl e, fs, st)
              | Inr kernel0 \<Rightarrow>
                  (case js_length env kernel0 of
                     Inl e \<Rightarrow> (Inl e, fs, st)
                   | Inr cols \<Rightarrow>
                       (case js_length env kernel of
                          Inl e \<Rightarrow> (Inl e, fs, st)
                        | Inr rows \<Rightarrow>
                            toFile_return env fs st (FromPath input_path)
                              [SOp ''convolve''
                                 [JObj [(''width'', cols), (''height'', rows),
                                        (''kernel'', flatKernel),
                                        (''scale'', scale), (''offset'', offset)]]]
                              output_path
                              (zap @ '' Custom convolution applied (Sharp fallback): '' @
                               String_of env output_path)))))"

definition image_custom_convolution :: tool_case where
  "image_custom_convolution =
     file_case image_custom_convolution_try image_custom_convolution_catch"

subsection \<open>\<^verbatim>\<open>image_colorspace_convert\<close>\<close>

definition image_colorspace_convert_try :: try_block where
  "image_colorspace_convert_try env a fs st =
     (let input_path = a ''input_path''; output_path = a ''output_path'';
          space = a ''space''
      in with_vips env fs st (\<lambda>st1.
           writeToFile_return env fs st1 ''image_colorspace_convert''
             [input_path, output_path, space]
             output_path
             (sparkles @ '' Image converted to '' @ String_of env space @
              '' color space: '' @ String_of env output_path)))"

definition colorspace_fallback_ops :: "json \<Rightarrow> sharp_op list" where
  "colorspace_fallback_ops space =
     (if space = JStr ''lab'' \<or> space = JStr ''xyz''
      then [SOp ''toColorspace'' [JStr ''lab'']]
      else if space = JStr ''cmyk''
      then [SOp ''toColorspace'' [JStr ''cmyk'']]
      else if space = JStr ''hsv''
      then [SOp ''modulate'' [JObj [(''hue'', num 0)]]]
      else [SOp ''toColorspace'' [JStr ''srgb'']])"

definition image_colorspace_convert_catch :: catch_block where
  "image_colorspace_convert_catch env a error fs st =
     (let input_path = a ''input_path''; output_path = a ''output_path'';
          space = a ''space''
      in toFile_return env fs st (FromPath input_path)
           (colorspace_fallback_ops space)
           output_path
           (zap @ '' Color space conversion applied (Sharp approximation): '' @
            String_of env output_path))"

definition image_colorspace_convert :: tool_case where
  "image_colorspace_convert =
     file_case image_colorspace_convert_try image_colorspace_convert_catch"

subsection \<open>\<^verbatim>\<open>image_add_noise\<close>\<close>

text \<open>
  \<open>Math_random env k\<close> is the value the \<open>k\<close>-th occurrence of \<^verbatim>\<open>Math.random()\<close> in the
  catch block draws; the draws of the \<^verbatim>\<open>try\<close> block go into wasm-vips calls and belong
  to the library outcome.
\<close>

definition image_add_noise_try :: try_block where
  "image_add_noise_try env a fs st =
     (let input_path = a ''input_path''; output_path = a ''output_path'';
          noise_type = a ''noise_type''; amount = dflt (a ''amount'') (num (1/10))
      in with_vips env fs st (\<lambda>st1.
           (if noise_type = JStr ''gaussian'' \<or> noise_type = JStr ''uniform'' \<or>
               noise_type = JStr ''salt_pepper''
            then writeToFile_return env fs st1 ''image_add_noise''
                   [input_path, output_path, noise_type, amount]
                   output_path
                   (sparkles @ '' '' @ String_of env noise_type @
                    '' noise added (amount: '' @ String_of env amount @ ''): '' @
                    String_of env output_path)
            else (Inl (Error (''Unknown noise type: '' @ String_of env noise_type)),
                  fs, st1))))"

definition image_add_noise_catch :: catch_block where
  "image_add_noise_catch env a error fs st =
     (let input_path = a ''input_path''; output_path = a ''output_path'';
          amount = dflt (a ''amount'') (num (1/10))
      in toFile_return env fs st (FromPath input_path)
           [SOp ''modulate''
              [JObj [(''brightness'',
                      js_add env (num 1)
                        (js_mul env (js_sub env (Math_random env 0) (num (1/2))) amount)),
                     (''saturation'',
                      js_add env (num 1)
                        (js_mul env
                           (js_mul env (js_sub env (Math_random env 1) (num (1/2))) amount)
                           (num (1/2))))]]]
           output_path
           (zap @ '' Noise approximation applied (Sharp fallback): '' @
            String_of env output_path))"

definition image_add_noise :: tool_case where
  "image_add_noise = file_case image_add_noise_try image_add_noise_catch"

subsection \<open>\<^verbatim>\<open>image_perspective_transform\<close>\<close>

definition image_perspective_transform_try :: try_block where
  "image_perspective_transform_try env a fs st =
     (let input_path = a ''input_path''; output_path = a ''output_path'';
          corners = a ''corners''
      in with_vips env fs st (\<lambda>st1.
           writeToFile_return env fs st1 ''image_perspective_transform''
             [input_path, output_path, corners]
             output_path
             (sparkles @ '' Perspective transformation applied: '' @
              String_of env output_path)))"

definition image_perspective_transform_catch :: catch_block where
  "image_perspective_transform_catch env a error fs st =
     (let input_path = a ''input_path''; output_path = a ''output_path''
      in toFile_return env fs st (FromPath input_path)
           [SOp ''rotate'' [num 15]]
           output_path
           (zap @ '' Rotation applied (perspective fallback): '' @ String_of env output_path))"

definition image_perspective_transform :: tool_case where
  "image_perspective_transform =
     file_case image_perspective_transform_try image_perspective_transform_catch"

subsection \<open>\<^verbatim>\<open>image_texture_analysis\<close>\<close>

definition image_texture_analysis_try :: try_block where
  "image_texture_analysis_try env a fs st =
     (let input_path = a ''input_path''; window_size = dflt (a ''window_size'') (num 5)
      in with_vips env fs st (\<lambda>st1.
           (case vips_stats env fs ''image_texture_analysis'' [input_path, window_size] of
              Inl e \<Rightarrow> (Inl e, fs, st1)
            | Inr stats \<Rightarrow>
                (Inr (text_response (sparkles @ '' Texture Analysis Results:'' @
                   newline @ JSON_stringify env (JObj stats))), fs, st1))))"

text \<open>\<^verbatim>\<open>stats.channels.map(ch => ({ mean: ch.mean, ..., contrast: ch.max - ch.min }))\<close>\<close>

definition texture_channels :: "env \<Rightarrow> json \<Rightarrow> js_exn + json" where
  "texture_channels env channels =
     (case channels of
        JArr cs \<Rightarrow>
          Inr (JArr (map (\<lambda>ch.
                 JObj [(''mean'', get_prop ch ''mean''),
                       (''stdev'', get_prop ch ''stdev''),
                       (''min'', get_prop ch ''min''),
                       (''max'', get_prop ch ''max''),
                       (''contrast'', js_sub env (get_prop ch ''max'') (get_prop ch ''min''))])
               cs))
      | _ \<Rightarrow> Inl (TypeError env ''map'' channels))"

definition image_texture_analysis_catch :: catch_block where
  "image_texture_analysis_catch env a error fs st =
     (let input_path = a ''input_path''; window_size = dflt (a ''window_size'') (num 5)
      in case sharp_stats env fs input_path of
           Inl e \<Rightarrow> (Inl e, fs, st)
         | Inr stats \<Rightarrow>
             (case sharp_metadata env fs input_path of
                Inl e \<Rightarrow> (Inl e, fs, st)
              | Inr metadata \<Rightarrow>
                  (case texture_channels env (lookup stats ''channels'') of
                     Inl e \<Rightarrow> (Inl e, fs, st)
                   | Inr channels \<Rightarrow>
                       (Inr (text_response (zap @ '' Basic Texture Analysis (Sharp):'' @
                          newline @
                          JSON_stringify env (JObj
                            [(''channels'', channels),
                             (''entropy'', lookup stats ''entropy''),
                             (''windowSize'', window_size),
                             (''format'', lookup metadata ''format''),
                             (''dimensions'', JStr
                                (String_of env (lookup metadata ''width'') @ ''x'' @
                                 String_of env (lookup metadata ''height'')))]))),
                        fs, st))))"

definition image_texture_analysis :: tool_case where
  "image_texture_analysis =
     stats_case image_texture_analysis_try image_texture_analysis_catch"

subsection \<open>\<^verbatim>\<open>image_flood_fill\<close>\<close>

definition image_flood_fill_try :: try_block where
  "image_flood_fill_try env a fs st =
     (let input_path = a ''input_path''; output_path = a ''output_path'';
          x = a ''x''; y = a ''y'';
          fill_color = dflt (a ''fill_color'') (JStr ''#FF0000'');
          tolerance = dflt (a ''tolerance'') (num 10)
      in with_vips env fs st (\<lambda>st1.
           writeToFile_return env fs st1 ''image_flood_fill''
             [input_path, output_path, fill_color, x, y, tolerance]
             output_path
             (sparkles @ '' Flood fill applied at ('' @ String_of env x @ '','' @
              String_of env y @ '') with color '' @ String_of env fill_color @
              '': '' @ String_of env output_path)))"

definition flood_svg :: "env \<Rightarrow> json \<Rightarrow> json \<Rightarrow> json \<Rightarrow> json \<Rightarrow> json \<Rightarrow> string" where
  \<open>flood_svg env imgWidth imgHeight x y fill_color =
     ''<svg width="'' @ String_of env imgWidth @ ''" height="'' @ String_of env imgHeight @
     ''" xmlns="http://www.w3.org/2000/svg">'' @ newline @
     ''            <circle cx="'' @ String_of env x @ ''" cy="'' @ String_of env y @
     ''" r="50" fill="'' @ String_of env fill_color @ ''"/>'' @ newline @
     ''          </svg>''\<close>

definition image_flood_fill_catch :: catch_block where
  "image_flood_fill_catch env a error fs st =
     (let input_path = a ''input_path''; output_path = a ''output_path'';
          x = a ''x''; y = a ''y'';
          fill_color = dflt (a ''fill_color'') (JStr ''#FF0000'')
      in case sharp_metadata env fs input_path of
           Inl e \<Rightarrow> (Inl e, fs, st)
         | Inr metadata \<Rightarrow>
             toFile_return env fs st (FromPath input_path)
               [SOp ''composite''
                  [JArr [JObj [(''input'', Buffer_from
                      (flood_svg env (lookup metadata ''width'') (lookup metadata ''height'')
                         x y fill_color)),
                     (''blend'', JStr ''over'')]]]]
               output_path
               (zap @ '' Circle overlay applied (flood fill approximation): '' @
                String_of env output_path))"

definition image_flood_fill :: tool_case where
  "image_flood_fill = file_case image_flood_fill_try image_flood_fill_catch"

section \<open>The image pyramid\<close>

text \<open>\<^verbatim>\<open>level++\<close> on a double: above \<open>2^53\<close> adding one changes nothing.\<close>

definition incr :: "nat \<Rightarrow> nat" where
  "incr level = (if level < 2 ^ 53 then Suc level else level)"

definition level_path :: "env \<Rightarrow> json \<Rightarrow> nat \<Rightarrow> string" where
  "level_path env output_dir level =
     String_of env output_dir @ ''/level_'' @ String_of env (num (of_nat level)) @ ''.jpg''"

text \<open>The entry \<^verbatim>\<open>{ level, path: outputPath, dimensions: `${...}x${...}` }\<close>.\<close>

definition level_entry :: "env \<Rightarrow> json \<Rightarrow> nat \<Rightarrow> json \<Rightarrow> json \<Rightarrow> json" where
  "level_entry env output_dir level currentWidth currentHeight =
     JObj [(''level'', num (of_nat level)),
           (''path'', JStr (level_path env output_dir level)),
           (''dimensions'', JStr (String_of env (Math_floor env currentWidth) @ ''x'' @
                                   String_of env (Math_floor env currentHeight)))]"

text \<open>
  \<^verbatim>\<open>for (let level = 0; level < levels; level++) { ... }\<close>. The loop ends when the
  comparison fails or a resize throws; with \<^verbatim>\<open>levels\<close> infinite and every resize
  succeeding it does not end, and the function has no value.
\<close>

partial_function (option) pyramid_loop ::
  "env \<Rightarrow> json \<Rightarrow> json \<Rightarrow> json \<Rightarrow> json \<Rightarrow> nat \<Rightarrow> json \<Rightarrow> json \<Rightarrow> json list \<Rightarrow> filesystem \<Rightarrow>
   ((js_exn + json list) \<times> filesystem) option" where
  "pyramid_loop env input_path output_dir levels scale_factor level currentWidth currentHeight
     pyramidFiles fs =
     (if js_less env level levels
      then
        (case sharp_toFile env fs (FromPath input_path)
                [SOp ''resize'' [Math_floor env currentWidth, Math_floor env currentHeight]]
                (JStr (level_path env output_dir level)) of
           Inl e \<Rightarrow> Some (Inl e, fs)
         | Inr bytes \<Rightarrow>
             pyramid_loop env input_path output_dir levels scale_factor (incr level)
               (js_mul env currentWidth scale_factor) (js_mul env currentHeight scale_factor)
               (pyramidFiles @
                  [level_entry env output_dir level currentWidth currentHeight])
               (write_file fs (JStr (level_path env output_dir level)) bytes))
      else Some (Inr pyramidFiles, fs))"

text \<open>\<^verbatim>\<open>catch (error) { throw new Error(`Failed to create image pyramid: ${error}`); }\<close>\<close>

definition pyramid_error :: "js_exn \<Rightarrow> js_exn" where
  "pyramid_error e = Error (''Failed to create image pyramid: '' @ exn_toString e)"

definition image_create_pyramid ::
  "env \<Rightarrow> filesystem \<Rightarrow> server_state \<Rightarrow> (string \<Rightarrow> json) option \<Rightarrow> outcome option" where
  "image_create_pyramid env fs st args =
     (case args of
        None \<Rightarrow> Some (Inl (TypeError env ''destructure'' JUndef), fs, st)
      | Some a \<Rightarrow>
          (let input_path = a ''input_path''; output_dir = a ''output_dir'';
               levels = dflt (a ''levels'') (num 4);
               scale_factor = dflt (a ''scale_factor'') (num (1/2))
           in if \<not> existsSync fs input_path
              then Some (Inl (Error (''Input image not found: '' @ String_of env input_path)),
                         fs, st)
              else
                (case ensureDirectoryExists env fs output_dir of
                   Inl e \<Rightarrow> Some (Inl e, fs, st)
                 | Inr fs1 \<Rightarrow>
                     (case sharp_metadata env fs1 input_path of
                        Inl e \<Rightarrow> Some (Inl (pyramid_error e), fs1, st)
                      | Inr metadata \<Rightarrow>
                          (case pyramid_loop env input_path output_dir levels scale_factor 0
                                  (lookup metadata ''width'') (lookup metadata ''height'') []
                                  fs1 of
                             None \<Rightarrow> None
                           | Some (Inl e, fs2) \<Rightarrow> Some (Inl (pyramid_error e), fs2, st)
                           | Some (Inr pyramidFiles, fs2) \<Rightarrow>
                               Some (Inr (text_response (sparkles @
                                       '' Image pyramid created with '' @ String_of env levels @
                                       '' levels:'' @ newline @
                                       JSON_stringify env (JArr pyramidFiles))),
                                     fs2, st))))))"

section \<open>The operation descriptors\<close>

definition tool_image_info :: json where
  \<open>tool_image_info =
     JObj
       [(''name'', JStr ''image_info''),
        (''description'', JStr ''Get detailed information about an image file''),
        (''inputSchema'', JObj
          [(''type'', JStr ''object''),
           (''properties'', JObj
             [(''image_path'', JObj
                [(''type'', JStr ''string''),
                 (''description'', JStr ''Path to the image file'')])]),
           (''required'', JArr [JStr ''image_path''])])]\<close>

definition tool_image_resize :: json where
  \<open>tool_image_resize =
     JObj
       [(''name'', JStr ''image_resize''),
        (''description'', JStr ''Resize an image while preserving aspect ratio or with specific dimensions''),
        (''inputSchema'', JObj
          [(''type'', JStr ''object''),
           (''properties'', JObj
             [(''input_path'', JObj
                [(''type'', JStr ''string''),
                 (''description'', JStr ''Path to input image'')]),
              (''output_path'', JObj
                [(''type'', JStr ''string''),
                 (''description'', JStr ''Path for output image'')]),
              (''width'', JObj
                [(''type'', JStr ''number''),
                 (''description'', JStr ''Target width in pixels'')]),
              (''height'', JObj
                [(''type'', JStr ''number''),
                 (''description'', JStr ''Target height in pixels'')]),
              (''maintain_aspect_ratio'', JObj
                [(''type'', JStr ''boolean''),
                 (''description'', JStr ''Whether to maintain aspect ratio (default: true)''),
                 (''default'', JBool True)]),
              (''fit'', JObj
                [(''type'', JStr ''string''),
                 (''enum'', JArr
                   [JStr ''cover'',
                    JStr ''contain'',
                    JStr ''fill'',
                    JStr ''inside'',
                    JStr ''outside'']),
                 (''description'', JStr ''How the image should be resized to fit the target dimensions''),
                 (''default'', JStr ''cover'')])]),
           (''required'', JArr [JStr ''input_path'', JStr ''output_path''])])]\<close>

definition tool_image_convert :: json where
  \<open>tool_image_convert =
     JObj
       [(''name'', JStr ''image_convert''),
        (''description'', JStr ''Convert image between different formats''),
        (''inputSchema'', JObj
          [(''type'', JStr ''object''),
           (''properties'', JObj
             [(''input_path'', JObj
                [(''type'', JStr ''string''),
                 (''description'', JStr ''Path to input image'')]),
              (''output_path'', JObj
                [(''type'', JStr ''string''),
                 (''description'', JStr ''Path for output image'')]),
              (''format'', JObj
                [(''type'', JStr ''string''),
                 (''enum'', JArr
                   [JStr ''jpeg'',
                    JStr ''png'',
                    JStr ''webp'',
                    JStr ''tiff'',
                    JStr ''avif'',
                    JStr ''heif'']),
                 (''description'', JStr ''Target format'')]),
              (''quality'', JObj
                [(''type'', JStr ''number''),
                 (''minimum'', num 1),
                 (''maximum'', num 100),
                 (''description'', JStr ''Quality for lossy formats (1-100)'')])]),
           (''required'', JArr [JStr ''input_path'', JStr ''output_path'', JStr ''format''])])]\<close>

definition tool_image_crop :: json where
  \<open>tool_image_crop =
     JObj
       [(''name'', JStr ''image_crop''),
        (''description'', JStr ''Crop an image to specified dimensions and position''),
        (''inputSchema'', JObj
          [(''type'', JStr ''object''),
           (''properties'', JObj
             [(''input_path'', JObj
                [(''type'', JStr ''string''),
                 (''description'', JStr ''Path to input image'')]),
              (''output_path'', JObj
                [(''type'', JStr ''string''),
                 (''description'', JStr ''Path for output image'')]),
              (''x'', JObj
                [(''type'', JStr ''number''),
                 (''description'', JStr ''X coordinate of crop area (left)'')]),
              (''y'', JObj
                [(''type'', JStr ''number''),
                 (''description'', JStr ''Y coordinate of crop area (top)'')]),
              (''width'', JObj
                [(''type'', JStr ''number''),
                 (''description'', JStr ''Width of crop area'')]),
              (''height'', JObj
                [(''type'', JStr ''number''),
                 (''description'', JStr ''Height of crop area'')])]),
           (''required'', JArr
             [JStr ''input_path'',
              JStr ''output_path'',
              JStr ''x'',
              JStr ''y'',
              JStr ''width'',
              JStr ''height''])])]\<close>

definition tool_image_rotate :: json where
  \<open>tool_image_rotate =
     JObj
       [(''name'', JStr ''image_rotate''),
        (''description'', JStr ''Rotate an image by specified angle''),
        (''inputSchema'', JObj
          [(''type'', JStr ''object''),
           (''properties'', JObj
             [(''input_path'', JObj
                [(''type'', JStr ''string''),
                 (''description'', JStr ''Path to input image'')]),
              (''output_path'', JObj
                [(''type'', JStr ''string''),
                 (''description'', JStr ''Path for output image'')]),
              (''angle'', JObj
                [(''type'', JStr ''number''),
                 (''description'', JStr ''Rotation angle in degrees (positive = clockwise)'')]),
              (''background'', JObj
                [(''type'', JStr ''string''),
                 (''description'', JStr ''Background color for empty areas (hex color)''),
                 (''default'', JStr ''#000000'')])]),
           (''required'', JArr [JStr ''input_path'', JStr ''output_path'', JStr ''angle''])])]\<close>

definition tool_image_flip :: json where
  \<open>tool_image_flip =
     JObj
       [(''name'', JStr ''image_flip''),
        (''description'', JStr ''Flip an image horizontally or vertically''),
        (''inputSchema'', JObj
          [(''type'', JStr ''object''),
           (''properties'', JObj
             [(''input_path'', JObj
                [(''type'', JStr ''string''),
                 (''description'', JStr ''Path to input image'')]),
              (''output_path'', JObj
                [(''type'', JStr ''string''),
                 (''description'', JStr ''Path for output image'')]),
              (''direction'', JObj
                [(''type'', JStr ''string''),
                 (''enum'', JArr [JStr ''horizontal'', JStr ''vertical'']),
                 (''description'', JStr ''Direction to flip the image'')])]),
           (''required'', JArr [JStr ''input_path'', JStr ''output_path'', JStr ''direction''])])]\<close>

definition tool_image_blur :: json where
  \<open>tool_image_blur =
     JObj
       [(''name'', JStr ''image_blur''),
        (''description'', JStr ''Apply Gaussian blur to an image''),
        (''inputSchema'', JObj
          [(''type'', JStr ''object''),
           (''properties'', JObj
             [(''input_path'', JObj
                [(''type'', JStr ''string''),
                 (''description'', JStr ''Path to input image'')]),
              (''output_path'', JObj
                [(''type'', JStr ''string''),
                 (''description'', JStr ''Path for output image'')]),
              (''sigma'', JObj
                [(''type'', JStr ''number''),
                 (''description'', JStr ''Blur strength (sigma value)''),
                 (''minimum'', num (3/10)),
                 (''maximum'', num 1000),
                 (''default'', num 1)])]),
           (''required'', JArr [JStr ''input_path'', JStr ''output_path''])])]\<close>

definition tool_image_sharpen :: json where
  \<open>tool_image_sharpen =
     JObj
       [(''name'', JStr ''image_sharpen''),
        (''description'', JStr ''Apply unsharp mask to sharpen an image''),
        (''inputSchema'', JObj
          [(''type'', JStr ''object''),
           (''properties'', JObj
             [(''input_path'', JObj
                [(''type'', JStr ''string''),
                 (''description'', JStr ''Path to input image'')]),
              (''output_path'', JObj
                [(''type'', JStr ''string''),
                 (''description'', JStr ''Path for output image'')]),
              (''sigma'', JObj
                [(''type'', JStr ''number''),
                 (''description'', JStr ''Blur sigma for the mask''),
                 (''default'', num 1)]),
              (''flat'', JObj
                [(''type'', JStr ''number''),
                 (''description'', JStr ''Flat area threshold''),
                 (''default'', num 1)]),
              (''jagged'', JObj
                [(''type'', JStr ''number''),
                 (''description'', JStr ''Jagged area threshold''),
                 (''default'', num 2)])]),
           (''required'', JArr [JStr ''input_path'', JStr ''output_path''])])]\<close>

definition tool_image_adjust_brightness :: json where
  \<open>tool_image_adjust_brightness =
     JObj
       [(''name'', JStr ''image_adjust_brightness''),
        (''description'', JStr ''Adjust image brightness''),
        (''inputSchema'', JObj
          [(''type'', JStr ''object''),
           (''properties'', JObj
             [(''input_path'', JObj
                [(''type'', JStr ''string''),
                 (''description'', JStr ''Path to input image'')]),
              (''output_path'', JObj
                [(''type'', JStr ''string''),
                 (''description'', JStr ''Path for output image'')]),
              (''brightness'', JObj
                [(''type'', JStr ''number''),
                 (''description'', JStr ''Brightness adjustment (-100 to 100)''),
                 (''minimum'', num (-100)),
                 (''maximum'', num 100)])]),
           (''required'', JArr [JStr ''input_path'', JStr ''output_path'', JStr ''brightness''])])]\<close>

definition tool_image_adjust_contrast :: json where
  \<open>tool_image_adjust_contrast =
     JObj
       [(''name'', JStr ''image_adjust_contrast''),
        (''description'', JStr ''Adjust image contrast''),
        (''inputSchema'', JObj
          [(''type'', JStr ''object''),
           (''properties'', JObj
             [(''input_path'', JObj
                [(''type'', JStr ''string''),
                 (''description'', JStr ''Path to input image'')]),
              (''output_path'', JObj
                [(''type'', JStr ''string''),
                 (''description'', JStr ''Path for output image'')]),
              (''contrast'', JObj
                [(''type'', JStr ''number''),
                 (''description'', JStr ''Contrast multiplier (0.1 to 3.0, 1.0 = no change)''),
                 (''minimum'', num (1/10)),
                 (''maximum'', num 3)])]),
           (''required'', JArr [JStr ''input_path'', JStr ''output_path'', JStr ''contrast''])])]\<close>

definition tool_image_adjust_saturation :: json where
  \<open>tool_image_adjust_saturation =
     JObj
       [(''name'', JStr ''image_adjust_saturation''),
        (''description'', JStr ''Adjust image saturation''),
        (''inputSchema'', JObj
          [(''type'', JStr ''object''),
           (''properties'', JObj
             [(''input_path'', JObj
                [(''type'', JStr ''string''),
                 (''description'', JStr ''Path to input image'')]),
              (''output_path'', JObj
                [(''type'', JStr ''string''),
                 (''description'', JStr ''Path for output image'')]),
              (''saturation'', JObj
                [(''type'', JStr ''number''),
                 (''description'', JStr ''Saturation multiplier (0.0 to 2.0, 1.0 = no change)''),
                 (''minimum'', num 0),
                 (''maximum'', num 2)])]),
           (''required'', JArr [JStr ''input_path'', JStr ''output_path'', JStr ''saturation''])])]\<close>

definition tool_image_grayscale :: json where
  \<open>tool_image_grayscale =
     JObj
       [(''name'', JStr ''image_grayscale''),
        (''description'', JStr ''Convert image to grayscale''),
        (''inputSchema'', JObj
          [(''type'', JStr ''object''),
           (''properties'', JObj
             [(''input_path'', JObj
                [(''type'', JStr ''string''),
                 (''description'', JStr ''Path to input image'')]),
              (''output_path'', JObj
                [(''type'', JStr ''string''),
                 (''description'', JStr ''Path for output image'')])]),
           (''required'', JArr [JStr ''input_path'', JStr ''output_path''])])]\<close>

definition tool_image_composite :: json where
  \<open>tool_image_composite =
     JObj
       [(''name'', JStr ''image_composite''),
        (''description'', JStr ''Composite two images together with various blend modes''),
        (''inputSchema'', JObj
          [(''type'', JStr ''object''),
           (''properties'', JObj
             [(''base_image_path'', JObj
                [(''type'', JStr ''string''),
                 (''description'', JStr ''Path to base image'')]),
              (''overlay_image_path'', JObj
                [(''type'', JStr ''string''),
                 (''description'', JStr ''Path to overlay image'')]),
              (''output_path'', JObj
                [(''type'', JStr ''string''),
                 (''description'', JStr ''Path for output image'')]),
              (''x'', JObj
                [(''type'', JStr ''number''),
                 (''description'', JStr ''X position of overlay on base image''),
                 (''default'', num 0)]),
              (''y'', JObj
                [(''type'', JStr ''number''),
                 (''description'', JStr ''Y position of overlay on base image''),
                 (''default'', num 0)]),
              (''blend'', JObj
                [(''type'', JStr ''string''),
                 (''enum'', JArr
                   [JStr ''over'',
                    JStr ''in'',
                    JStr ''out'',
                    JStr ''atop'',
                    JStr ''dest'',
                    JStr ''dest-over'',
                    JStr ''dest-in'',
                    JStr ''dest-out'',
                    JStr ''dest-atop'',
                    JStr ''xor'',
                    JStr ''add'',
                    JStr ''saturate'',
                    JStr ''multiply'',
                    JStr ''screen'',
                    JStr ''overlay'',
                    JStr ''darken'',
                    JStr ''lighten'',
                    JStr ''colour-dodge'',
                    JStr ''colour-burn'',
                    JStr ''hard-light'',
                    JStr ''soft-light'',
                    JStr ''difference'',
                    JStr ''exclusion'']),
                 (''description'', JStr ''Blend mode for compositing''),
                 (''default'', JStr ''over'')])]),
           (''required'', JArr [JStr ''base_image_path'', JStr ''overlay_image_path'', JStr ''output_path''])])]\<close>

definition tool_image_thumbnail :: json where
  \<open>tool_image_thumbnail =
     JObj
       [(''name'', JStr ''image_thumbnail''),
        (''description'', JStr ''Create a thumbnail maintaining aspect ratio''),
        (''inputSchema'', JObj
          [(''type'', JStr ''object''),
           (''properties'', JObj
             [(''input_path'', JObj
                [(''type'', JStr ''string''),
                 (''description'', JStr ''Path to input image'')]),
              (''output_path'', JObj
                [(''type'', JStr ''string''),
                 (''description'', JStr ''Path for output image'')]),
              (''size'', JObj
                [(''type'', JStr ''number''),
                 (''description'', JStr ''Maximum dimension for thumbnail'')]),
              (''crop'', JObj
                [(''type'', JStr ''boolean''),
                 (''description'', JStr ''Whether to crop to exact square''),
                 (''default'', JBool False)])]),
           (''required'', JArr [JStr ''input_path'', JStr ''output_path'', JStr ''size''])])]\<close>

definition tool_image_extract_channel :: json where
  \<open>tool_image_extract_channel =
     JObj
       [(''name'', JStr ''image_extract_channel''),
        (''description'', JStr ''Extract a specific channel from an image''),
        (''inputSchema'', JObj
          [(''type'', JStr ''object''),
           (''properties'', JObj
             [(''input_path'', JObj
                [(''type'', JStr ''string''),
                 (''description'', JStr ''Path to input image'')]),
              (''output_path'', JObj
                [(''type'', JStr ''string''),
                 (''description'', JStr ''Path for output image'')]),
              (''channel'', JObj
                [(''type'', JStr ''number''),
                 (''description'', JStr ''Channel index to extract (0=Red, 1=Green, 2=Blue, 3=Alpha)''),
                 (''minimum'', num 0),
                 (''maximum'', num 3)])]),
           (''required'', JArr [JStr ''input_path'', JStr ''output_path'', JStr ''channel''])])]\<close>

definition tool_image_histogram :: json where
  \<open>tool_image_histogram =
     JObj
       [(''name'', JStr ''image_histogram''),
        (''description'', JStr ''Generate histogram data for an image''),
        (''inputSchema'', JObj
          [(''type'', JStr ''object''),
           (''properties'', JObj
             [(''input_path'', JObj
                [(''type'', JStr ''string''),
                 (''description'', JStr ''Path to input image'')]),
              (''bins'', JObj
                [(''type'', JStr ''number''),
                 (''description'', JStr ''Number of histogram bins''),
                 (''default'', num 256)])]),
           (''required'', JArr [JStr ''input_path''])])]\<close>

definition tool_create_solid_color :: json where
  \<open>tool_create_solid_color =
     JObj
       [(''name'', JStr ''create_solid_color''),
        (''description'', JStr ''Create a solid color image''),
        (''inputSchema'', JObj
          [(''type'', JStr ''object''),
           (''properties'', JObj
             [(''output_path'', JObj
                [(''type'', JStr ''string''),
                 (''description'', JStr ''Path for output image'')]),
              (''width'', JObj
                [(''type'', JStr ''number''),
                 (''description'', JStr ''Image width in pixels'')]),
              (''height'', JObj
                [(''type'', JStr ''number''),
                 (''description'', JStr ''Image height in pixels'')]),
              (''color'', JObj
                [(''type'', JStr ''string''),
                 (''description'', JStr ''Color in hex format (e.g., #FF0000)''),
                 (''default'', JStr ''#FFFFFF'')])]),
           (''required'', JArr [JStr ''output_path'', JStr ''width'', JStr ''height''])])]\<close>

definition tool_image_morphology :: json where
  \<open>tool_image_morphology =
     JObj
       [(''name'', JStr ''image_morphology''),
        (''description'', JStr ''Apply morphological operations (erosion, dilation, opening, closing)''),
        (''inputSchema'', JObj
          [(''type'', JStr ''object''),
           (''properties'', JObj
             [(''input_path'', JObj
                [(''type'', JStr ''string''),
                 (''description'', JStr ''Path to input image'')]),
              (''output_path'', JObj
                [(''type'', JStr ''string''),
                 (''description'', JStr ''Path for output image'')]),
              (''operation'', JObj
                [(''type'', JStr ''string''),
                 (''enum'', JArr [JStr ''erode'', JStr ''dilate'', JStr ''opening'', JStr ''closing'']),
                 (''description'', JStr ''Morphological operation to apply'')]),
              (''kernel_size'', JObj
                [(''type'', JStr ''number''),
                 (''default'', num 3),
                 (''description'', JStr ''Size of morphological kernel'')]),
              (''iterations'', JObj
                [(''type'', JStr ''number''),
                 (''default'', num 1),
                 (''minimum'', num 1),
                 (''description'', JStr ''Number of iterations'')])]),
           (''required'', JArr [JStr ''input_path'', JStr ''output_path'', JStr ''operation''])])]\<close>

definition tool_image_draw_line :: json where
  \<open>tool_image_draw_line =
     JObj
       [(''name'', JStr ''image_draw_line''),
        (''description'', JStr ''Draw a line on the image''),
        (''inputSchema'', JObj
          [(''type'', JStr ''object''),
           (''properties'', JObj
             [(''input_path'', JObj
                [(''type'', JStr ''string''),
                 (''description'', JStr ''Path to input image'')]),
              (''output_path'', JObj
                [(''type'', JStr ''string''),
                 (''description'', JStr ''Path for output image'')]),
              (''x1'', JObj
                [(''type'', JStr ''number''),
                 (''description'', JStr ''Start X coordinate'')]),
              (''y1'', JObj
                [(''type'', JStr ''number''),
                 (''description'', JStr ''Start Y coordinate'')]),
              (''x2'', JObj [(''type'', JStr ''number''), (''description'', JStr ''End X coordinate'')]),
              (''y2'', JObj [(''type'', JStr ''number''), (''description'', JStr ''End Y coordinate'')]),
              (''color'', JObj
                [(''type'', JStr ''string''),
                 (''default'', JStr ''#000000''),
                 (''description'', JStr ''Line color (hex format)'')]),
              (''width'', JObj
                [(''type'', JStr ''number''),
                 (''default'', num 1),
                 (''description'', JStr ''Line width in pixels'')])]),
           (''required'', JArr
             [JStr ''input_path'',
              JStr ''output_path'',
              JStr ''x1'',
              JStr ''y1'',
              JStr ''x2'',
              JStr ''y2''])])]\<close>

definition tool_image_draw_circle :: json where
  \<open>tool_image_draw_circle =
     JObj
       [(''name'', JStr ''image_draw_circle''),
        (''description'', JStr ''Draw a circle on the image''),
        (''inputSchema'', JObj
          [(''type'', JStr ''object''),
           (''properties'', JObj
             [(''input_path'', JObj
                [(''type'', JStr ''string''),
                 (''description'', JStr ''Path to input image'')]),
              (''output_path'', JObj
                [(''type'', JStr ''string''),
                 (''description'', JStr ''Path for output image'')]),
              (''x'', JObj
                [(''type'', JStr ''number''),
                 (''description'', JStr ''Center X coordinate'')]),
              (''y'', JObj
                [(''type'', JStr ''number''),
                 (''description'', JStr ''Center Y coordinate'')]),
              (''radius'', JObj
                [(''type'', JStr ''number''),
                 (''description'', JStr ''Circle radius in pixels'')]),
              (''fill'', JObj
                [(''type'', JStr ''boolean''),
                 (''default'', JBool False),
                 (''description'', JStr ''Whether to fill the circle'')]),
              (''color'', JObj
                [(''type'', JStr ''string''),
                 (''default'', JStr ''#000000''),
                 (''description'', JStr ''Circle color (hex format)'')])]),
           (''required'', JArr
             [JStr ''input_path'',
              JStr ''output_path'',
              JStr ''x'',
              JStr ''y'',
              JStr ''radius''])])]\<close>

definition tool_image_edge_detection :: json where
  \<open>tool_image_edge_detection =
     JObj
       [(''name'', JStr ''image_edge_detection''),
        (''description'', JStr ''Apply edge detection algorithms''),
        (''inputSchema'', JObj
          [(''type'', JStr ''object''),
           (''properties'', JObj
             [(''input_path'', JObj
                [(''type'', JStr ''string''),
                 (''description'', JStr ''Path to input image'')]),
              (''output_path'', JObj
                [(''type'', JStr ''string''),
                 (''description'', JStr ''Path for output image'')]),
              (''method'', JObj
                [(''type'', JStr ''string''),
                 (''enum'', JArr [JStr ''sobel'', JStr ''prewitt'', JStr ''roberts'', JStr ''laplacian'']),
                 (''description'', JStr ''Edge detection method to use'')]),
              (''threshold'', JObj
                [(''type'', JStr ''number''),
                 (''default'', num 128),
                 (''description'', JStr ''Edge threshold (0-255)'')])]),
           (''required'', JArr [JStr ''input_path'', JStr ''output_path'', JStr ''method''])])]\<close>

definition tool_image_advanced_stats :: json where
  \<open>tool_image_advanced_stats =
     JObj
       [(''name'', JStr ''image_advanced_stats''),
        (''description'', JStr ''Calculate comprehensive image statistics using wasm-vips''),
        (''inputSchema'', JObj
          [(''type'', JStr ''object''),
           (''properties'', JObj
             [(''input_path'', JObj
                [(''type'', JStr ''string''),
                 (''description'', JStr ''Path to input image'')])]),
           (''required'', JArr [JStr ''input_path''])])]\<close>

definition tool_image_fft :: json where
  \<open>tool_image_fft =
     JObj
       [(''name'', JStr ''image_fft''),
        (''description'', JStr ''Apply Fast Fourier Transform for frequency domain analysis''),
        (''inputSchema'', JObj
          [(''type'', JStr ''object''),
           (''properties'', JObj
             [(''input_path'', JObj
                [(''type'', JStr ''string''),
                 (''description'', JStr ''Path to input image'')]),
              (''output_path'', JObj
                [(''type'', JStr ''string''),
                 (''description'', JStr ''Path for output image'')]),
              (''inverse'', JObj
                [(''type'', JStr ''boolean''),
                 (''default'', JBool False),
                 (''description'', JStr ''Apply inverse FFT'')])]),
           (''required'', JArr [JStr ''input_path'', JStr ''output_path''])])]\<close>

definition tool_image_custom_convolution :: json where
  \<open>tool_image_custom_convolution =
     JObj
       [(''name'', JStr ''image_custom_convolution''),
        (''description'', JStr ''Apply custom convolution kernel for advanced filtering''),
        (''inputSchema'', JObj
          [(''type'', JStr ''object''),
           (''properties'', JObj
             [(''input_path'', JObj
                [(''type'', JStr ''string''),
                 (''description'', JStr ''Path to input image'')]),
              (''output_path'', JObj
                [(''type'', JStr ''string''),
                 (''description'', JStr ''Path for output image'')]),
              (''kernel'', JObj
                [(''type'', JStr ''array''),
                 (''items'', JObj
                   [(''type'', JStr ''array''),
                    (''items'', JObj [(''type'', JStr ''number'')])]),
                 (''description'', JStr ''2D convolution kernel matrix'')]),
              (''scale'', JObj
                [(''type'', JStr ''number''),
                 (''default'', num 1),
                 (''description'', JStr ''Kernel scale factor'')]),
              (''offset'', JObj
                [(''type'', JStr ''number''),
                 (''default'', num 0),
                 (''description'', JStr ''Output offset'')])]),
           (''required'', JArr [JStr ''input_path'', JStr ''output_path'', JStr ''kernel''])])]\<close>

definition tool_image_colorspace_convert :: json where
  \<open>tool_image_colorspace_convert =
     JObj
       [(''name'', JStr ''image_colorspace_convert''),
        (''description'', JStr ''Convert between different color spaces''),
        (''inputSchema'', JObj
          [(''type'', JStr ''object''),
           (''properties'', JObj
             [(''input_path'', JObj
                [(''type'', JStr ''string''),
                 (''description'', JStr ''Path to input image'')]),
              (''output_path'', JObj
                [(''type'', JStr ''string''),
                 (''description'', JStr ''Path for output image'')]),
              (''space'', JObj
                [(''type'', JStr ''string''),
                 (''enum'', JArr
                   [JStr ''srgb'',
                    JStr ''rgb'',
                    JStr ''cmyk'',
                    JStr ''lab'',
                    JStr ''xyz'',
                    JStr ''scrgb'',
                    JStr ''hsv'',
                    JStr ''lch'']),
                 (''description'', JStr ''Target color space'')])]),
           (''required'', JArr [JStr ''input_path'', JStr ''output_path'', JStr ''space''])])]\<close>

definition tool_image_add_noise :: json where
  \<open>tool_image_add_noise =
     JObj
       [(''name'', JStr ''image_add_noise''),
        (''description'', JStr ''Add various types of noise to images''),
        (''inputSchema'', JObj
          [(''type'', JStr ''object''),
           (''properties'', JObj
             [(''input_path'', JObj
                [(''type'', JStr ''string''),
                 (''description'', JStr ''Path to input image'')]),
              (''output_path'', JObj
                [(''type'', JStr ''string''),
                 (''description'', JStr ''Path for output image'')]),
              (''noise_type'', JObj
                [(''type'', JStr ''string''),
                 (''enum'', JArr [JStr ''gaussian'', JStr ''uniform'', JStr ''salt_pepper'']),
                 (''description'', JStr ''Type of noise to add'')]),
              (''amount'', JObj
                [(''type'', JStr ''number''),
                 (''default'', num (1/10)),
                 (''minimum'', num 0),
                 (''maximum'', num 1),
                 (''description'', JStr ''Noise intensity (0-1)'')])]),
           (''required'', JArr [JStr ''input_path'', JStr ''output_path'', JStr ''noise_type''])])]\<close>

definition tool_image_perspective_transform :: json where
  \<open>tool_image_perspective_transform =
     JObj
       [(''name'', JStr ''image_perspective_transform''),
        (''description'', JStr ''Apply perspective transformation to images''),
        (''inputSchema'', JObj
          [(''type'', JStr ''object''),
           (''properties'', JObj
             [(''input_path'', JObj
                [(''type'', JStr ''string''),
                 (''description'', JStr ''Path to input image'')]),
              (''output_path'', JObj
                [(''type'', JStr ''string''),
                 (''description'', JStr ''Path for output image'')]),
              (''corners'', JObj
                [(''type'', JStr ''array''),
                 (''items'', JObj
                   [(''type'', JStr ''array''),
                    (''items'', JObj [(''type'', JStr ''number'')]),
                    (''minItems'', num 2),
                    (''maxItems'', num 2)]),
                 (''minItems'', num 4),
                 (''maxItems'', num 4),
                 (''description'', JStr ''Four corner points [[x1,y1], [x2,y2], [x3,y3], [x4,y4]]'')])]),
           (''required'', JArr [JStr ''input_path'', JStr ''output_path'', JStr ''corners''])])]\<close>

definition tool_image_texture_analysis :: json where
  \<open>tool_image_texture_analysis =
     JObj
       [(''name'', JStr ''image_texture_analysis''),
        (''description'', JStr ''Analyze image texture using statistical measures''),
        (''inputSchema'', JObj
          [(''type'', JStr ''object''),
           (''properties'', JObj
             [(''input_path'', JObj
                [(''type'', JStr ''string''),
                 (''description'', JStr ''Path to input image'')]),
              (''window_size'', JObj
                [(''type'', JStr ''number''),
                 (''default'', num 5),
                 (''description'', JStr ''Analysis window size'')])]),
           (''required'', JArr [JStr ''input_path''])])]\<close>

definition tool_image_flood_fill :: json where
  \<open>tool_image_flood_fill =
     JObj
       [(''name'', JStr ''image_flood_fill''),
        (''description'', JStr ''Fill connected regions with specified color''),
        (''inputSchema'', JObj
          [(''type'', JStr ''object''),
           (''properties'', JObj
             [(''input_path'', JObj
                [(''type'', JStr ''string''),
                 (''description'', JStr ''Path to input image'')]),
              (''output_path'', JObj
                [(''type'', JStr ''string''),
                 (''description'', JStr ''Path for output image'')]),
              (''x'', JObj
                [(''type'', JStr ''number''),
                 (''description'', JStr ''Starting X coordinate'')]),
              (''y'', JObj
                [(''type'', JStr ''number''),
                 (''description'', JStr ''Starting Y coordinate'')]),
              (''fill_color'', JObj
                [(''type'', JStr ''string''),
                 (''default'', JStr ''#FF0000''),
                 (''description'', JStr ''Fill color (hex format)'')]),
              (''tolerance'', JObj
                [(''type'', JStr ''number''),
                 (''default'', num 10),
                 (''description'', JStr ''Color tolerance for filling'')])]),
           (''required'', JArr [JStr ''input_path'', JStr ''output_path'', JStr ''x'', JStr ''y''])])]\<close>

definition tool_image_create_pyramid :: json where
  \<open>tool_image_create_pyramid =
     JObj
       [(''name'', JStr ''image_create_pyramid''),
        (''description'', JStr ''Create image pyramid for multi-resolution analysis''),
        (''inputSchema'', JObj
          [(''type'', JStr ''object''),
           (''properties'', JObj
             [(''input_path'', JObj
                [(''type'', JStr ''string''),
                 (''description'', JStr ''Path to input image'')]),
              (''output_dir'', JObj
                [(''type'', JStr ''string''),
                 (''description'', JStr ''Directory for pyramid levels'')]),
              (''levels'', JObj
                [(''type'', JStr ''number''),
                 (''default'', num 4),
                 (''minimum'', num 2),
                 (''maximum'', num 8),
                 (''description'', JStr ''Number of pyramid levels'')]),
              (''scale_factor'', JObj
                [(''type'', JStr ''number''),
                 (''default'', num (1/2)),
                 (''description'', JStr ''Scale factor between levels'')])]),
           (''required'', JArr [JStr ''input_path'', JStr ''output_dir''])])]\<close>

text \<open>\<^verbatim>\<open>const tools: Tool[] = [ ... ]\<close>, in the order of the source.\<close>

definition tools_table :: "json list" where
  "tools_table =
    [tool_image_info,
     tool_image_resize,
     tool_image_convert,
     tool_image_crop,
     tool_image_rotate,
     tool_image_flip,
     tool_image_blur,
     tool_image_sharpen,
     tool_image_adjust_brightness,
     tool_image_adjust_contrast,
     tool_image_adjust_saturation,
     tool_image_grayscale,
     tool_image_composite,
     tool_image_thumbnail,
     tool_image_extract_channel,
     tool_image_histogram,
     tool_create_solid_color,
     tool_image_morphology,
     tool_image_draw_line,
     tool_image_draw_circle,
     tool_image_edge_detection,
     tool_image_advanced_stats,
     tool_image_fft,
     tool_image_custom_convolution,
     tool_image_colorspace_convert,
     tool_image_add_noise,
     tool_image_perspective_transform,
     tool_image_texture_analysis,
     tool_image_flood_fill,
     tool_image_create_pyramid]"

section \<open>The two request handlers\<close>

text \<open>The module as it stands when the process starts.\<close>

definition initial_state :: server_state where
  "initial_state = \<lparr>vips = None, vips_loads = 0, tools = tools_table\<rparr>"

text \<open>\<^verbatim>\<open>server.setRequestHandler(ListToolsRequestSchema, async () => { return { tools }; })\<close>\<close>

definition list_tools :: "server_state \<Rightarrow> json list \<times> server_state" where
  "list_tools st = (tools st, st)"

text \<open>The \<^verbatim>\<open>switch (name)\<close> inside the \<^verbatim>\<open>try\<close> of the tool handler.\<close>

definition dispatch ::
  "env \<Rightarrow> filesystem \<Rightarrow> server_state \<Rightarrow> string \<Rightarrow> (string \<Rightarrow> json) option \<Rightarrow> outcome option" where
  "dispatch env fs st name args =
     (if name = ''image_info'' then Some (image_info env fs st args)
      else if name = ''image_resize'' then Some (image_resize env fs st args)
      else if name = ''image_convert'' then Some (image_convert env fs st args)
      else if name = ''image_crop'' then Some (image_crop env fs st args)
      else if name = ''image_rotate'' then Some (image_rotate env fs st args)
      else if name = ''image_flip'' then Some (image_flip env fs st args)
      else if name = ''image_blur'' then Some (image_blur env fs st args)
      else if name = ''image_sharpen'' then Some (image_sharpen env fs st args)
      else if name = ''image_adjust_brightness''
        then Some (image_adjust_brightness env fs st args)
      else if name = ''image_adjust_contrast'' then Some (image_adjust_contrast env fs st args)
      else if name = ''image_adjust_saturation''
        then Some (image_adjust_saturation env fs st args)
      else if name = ''image_grayscale'' then Some (image_grayscale env fs st args)
      else if name = ''image_composite'' then Some (image_composite env fs st args)
      else if name = ''image_thumbnail'' then Some (image_thumbnail env fs st args)
      else if name = ''image_extract_channel'' then Some (image_extract_channel env fs st args)
      else if name = ''image_histogram'' then Some (image_histogram env fs st args)
      else if name = ''create_solid_color'' then Some (create_solid_color env fs st args)
      else if name = ''image_morphology'' then Some (image_morphology env fs st args)
      else if name = ''image_draw_line'' then Some (image_draw_line env fs st args)
      else if name = ''image_draw_circle'' then Some (image_draw_circle env fs st args)
      else if name = ''image_edge_detection'' then Some (image_edge_detection env fs st args)
      else if name = ''image_advanced_stats'' then Some (image_advanced_stats env fs st args)
      else if name = ''image_fft'' then Some (image_fft env fs st args)
      else if name = ''image_custom_convolution''
        then Some (image_custom_convolution env fs st args)
      else if name = ''image_colorspace_convert''
        then Some (image_colorspace_convert env fs st args)
      else if name = ''image_add_noise'' then Some (image_add_noise env fs st args)
      else if name = ''image_perspective_transform''
        then Some (image_perspective_transform env fs st args)
      else if name = ''image_texture_analysis''
        then Some (image_texture_analysis env fs st args)
      else if name = ''image_flood_fill'' then Some (image_flood_fill env fs st args)
      else if name = ''image_create_pyramid'' then image_create_pyramid env fs st args
      else Some (Inl (Error (''Unknown tool: '' @ name)), fs, st))"

text \<open>
  The top-level \<^verbatim>\<open>catch\<close>:
  \<^verbatim>\<open>{ content: [{ type: 'text', text: `Error: ${...}` }], isError: true }\<close>
\<close>

definition error_response :: "js_exn \<Rightarrow> response" where
  "error_response error =
     \<lparr>content = [\<lparr>ctype = ''text'', ctext = ''Error: '' @ exn_message error\<rparr>],
      isError = Some True\<rparr>"

text \<open>
  \<^verbatim>\<open>server.setRequestHandler(CallToolRequestSchema, async (request) => { ... })\<close>: the
  response, the filesystem and the state after the call; no value when the call does
  not return.
\<close>

definition handler ::
  "env \<Rightarrow> filesystem \<Rightarrow> server_state \<Rightarrow> request \<Rightarrow>
   (response \<times> filesystem \<times> server_state) option" where
  "handler env fs st request =
     (case dispatch env fs st (tool_name request) (arguments request) of
        None \<Rightarrow> None
      | Some (Inl error, fs1, st1) \<Rightarrow> Some (error_response error, fs1, st1)
      | Some (Inr r, fs1, st1) \<Rightarrow> Some (r, fs1, st1))"

text \<open>Requests handled one after the other, each from where the last one ended.\<close>

fun run ::
  "env \<Rightarrow> filesystem \<Rightarrow> server_state \<Rightarrow> request list \<Rightarrow> (filesystem \<times> server_state) option" where
  "run env fs st [] = Some (fs, st)"
| "run env fs st (request # rest) =
     (case handler env fs st request of
        None \<Rightarrow> None
      | Some (r, fs1, st1) \<Rightarrow> run env fs1 st1 rest)"

section \<open>Vocabulary of the statements\<close>

text \<open>
  An outcome is textual when its response, if it has one, is the object literal with
  one text item and no \<^verbatim>\<open>isError\<close>.
\<close>

definition textual :: "outcome \<Rightarrow> bool" where
  "textual out = (case fst out of Inl e \<Rightarrow> True | Inr r \<Rightarrow> (\<exists>t. r = text_response t))"

text \<open>A case that never touches the wasm-vips handle, and one that at most initialises it.\<close>

definition sharp_only :: "server_state \<Rightarrow> outcome \<Rightarrow> bool" where
  "sharp_only st out = (textual out \<and> snd (snd out) = st)"

definition vips_lazy :: "env \<Rightarrow> server_state \<Rightarrow> outcome \<Rightarrow> bool" where
  "vips_lazy env st out =
     (textual out \<and> (snd (snd out) = st \<or> snd (snd out) = snd (initVips env st)))"










text \<open>
  The values of \<^verbatim>\<open>currentWidth\<close> and \<^verbatim>\<open>currentHeight\<close> when iteration \<open>k\<close> of the pyramid
  loop starts: the width and height of the metadata, multiplied \<open>k\<close> times by the scale
  factor with the multiplication of the runtime.
\<close>

definition scaled :: "env \<Rightarrow> json \<Rightarrow> json \<Rightarrow> nat \<Rightarrow> json" where
  "scaled env x s k = ((\<lambda>v. js_mul env v s) ^^ k) x"



section \<open>A concrete environment\<close>

text \<open>
  An environment to run the handler in: arithmetic that is exact on the numbers it
  meets, a \<^verbatim>\<open>dirname\<close> that cuts at the last slash, an input image of one pixel, a Sharp
  that refuses a resize to zero pixels and writes everything else, and a wasm-vips that
  loads and works. Two variants take one library down each.
\<close>

definition exact :: "(rat \<Rightarrow> rat \<Rightarrow> rat) \<Rightarrow> json \<Rightarrow> json \<Rightarrow> json" where
  "exact f x y = (case (x, y) of (JNum (Fin a), JNum (Fin b)) \<Rightarrow> num (f a b) | _ \<Rightarrow> JNum NaN)"

definition parent_dir :: "string \<Rightarrow> string" where
  "parent_dir p =
     (let r = dropWhile (\<lambda>c. c \<noteq> CHR ''/'') (rev p) in if r = [] then ''.'' else rev (tl r))"

definition demo_env :: env where
  "demo_env =
     \<lparr>to_string = (\<lambda>v. ''[object Object]''),
      to_number = (\<lambda>v. NaN),
      js_add = exact (+),
      js_sub = exact (-),
      js_mul = exact (*),
      js_div = exact (/),
      js_neg = (\<lambda>x. case x of JNum (Fin a) \<Rightarrow> num (- a) | _ \<Rightarrow> JNum NaN),
      parseInt16 = (\<lambda>s. JNum NaN),
      type_error = (\<lambda>what v. what),
      JSON_stringify = (\<lambda>v. ''[...]''),
      Math_random = (\<lambda>k. num 0),
      dirname = parent_dir,
      mkdir = (\<lambda>fs d. (fs\<lparr>dirs := insert d (dirs fs)\<rparr>, None)),
      statSync_size = (\<lambda>fs p. Inr (num 68)),
      sharp_metadata = (\<lambda>fs p. Inr [(''width'', num 1), (''height'', num 1)]),
      sharp_stats = (\<lambda>fs p. Inr []),
      sharp_toFile = (\<lambda>fs inp ops out.
        if ops = [SOp ''resize'' [num 0, num 0]]
        then Inl (Error ''Expected positive integer for width but received 0 of type number'')
        else Inr ''image''),
      Vips = (\<lambda>n. None),
      vips_writeToFile = (\<lambda>fs tool vals. Inr ''image''),
      vips_stats = (\<lambda>fs tool vals. Inr [])\<rparr>"

definition demo_fs :: filesystem where
  "demo_fs = \<lparr>files = [''in.png'' \<mapsto> ''png''], dirs = {''out'', ''out/pyramid''}\<rparr>"



text \<open>The arguments \<^verbatim>\<open>{ input_path: 'in.png', output_path: 'out/o.png' }\<close>.\<close>

definition in_out :: "string \<Rightarrow> json" where
  "in_out = (\<lambda>k. JUndef)(''input_path'' := JStr ''in.png'', ''output_path'' := JStr ''out/o.png'')"







section \<open>How the cases treat the state and shape their responses\<close>

text \<open>
  The patterns first, then the cases built from them: a case on Sharp alone hands the
  state back as it got it, a case with both blocks at most initialises the handle, and
  whatever either returns is the literal with one text item.
\<close>

lemma sharp_only_throw [simp]: "sharp_only st (Inl e, fs, st)"
  by (simp add: sharp_only_def textual_def)

lemma sharp_only_text [simp]: "sharp_only st (Inr (text_response t), fs, st)"
  by (auto simp: sharp_only_def textual_def)

lemma sharp_only_destructure:
  "(\<And>a. sharp_only st (body a)) \<Longrightarrow> sharp_only st (destructure env fs st args body)"
  by (simp add: destructure_def split: option.splits)

lemma sharp_only_input_exists:
  "sharp_only st rest \<Longrightarrow> sharp_only st (input_exists env fs st p rest)"
  by (simp add: input_exists_def)

lemma sharp_only_ensured:
  "(\<And>fs1. sharp_only st (rest fs1)) \<Longrightarrow> sharp_only st (ensured env fs st p rest)"
  by (simp add: ensured_def split: sum.splits)

lemma sharp_only_toFile [simp]: "sharp_only st (toFile_return env fs st i ops p t)"
  by (simp add: toFile_return_def split: sum.splits)

lemma sharp_only_writeToFile [simp]: "sharp_only st (writeToFile_return env fs st tool vals p t)"
  by (simp add: writeToFile_return_def split: sum.splits)

lemmas sharp_only_intros =
  sharp_only_destructure sharp_only_input_exists sharp_only_ensured

lemma vips_lazy_sharp_only: "sharp_only st out \<Longrightarrow> vips_lazy env st out"
  by (simp add: sharp_only_def vips_lazy_def)

lemma vips_lazy_with_vips:
  "(\<And>st1. sharp_only st1 (rest st1)) \<Longrightarrow> vips_lazy env st (with_vips env fs st rest)"
proof -
  assume r: "\<And>st1. sharp_only st1 (rest st1)"
  obtain x st1 where i: "initVips env st = (x, st1)" by (cases "initVips env st")
  show ?thesis
  proof (cases x)
    case (Inl e)
    with i show ?thesis by (simp add: with_vips_def vips_lazy_def textual_def)
  next
    case (Inr h)
    with i r [of st1] show ?thesis by (simp add: with_vips_def vips_lazy_def sharp_only_def)
  qed
qed

lemma vips_lazy_try_catch:
  assumes "vips_lazy env st block" and "\<And>e fs2 st2. sharp_only st2 (cb e fs2 st2)"
  shows "vips_lazy env st (try_catch block cb)"
proof -
  obtain x fs2 st2 where b: "block = (x, fs2, st2)" by (cases block)
  show ?thesis
  proof (cases x)
    case (Inl e)
    with b assms(1) assms(2) [of st2 e fs2] show ?thesis
      by (simp add: try_catch_def vips_lazy_def sharp_only_def)
  next
    case (Inr r)
    with b assms(1) show ?thesis by (simp add: try_catch_def vips_lazy_def textual_def)
  qed
qed

lemma vips_lazy_file_case:
  assumes "\<And>a fs1. vips_lazy env st (tb env a fs1 st)"
    and "\<And>a e fs2 st2. sharp_only st2 (cb env a e fs2 st2)"
  shows "vips_lazy env st (file_case tb cb env fs st args)"
proof (cases args)
  case None
  then show ?thesis by (simp add: file_case_def destructure_def vips_lazy_sharp_only)
next
  case (Some a)
  have t: "\<And>fs1. vips_lazy env st (try_catch (tb env a fs1 st) (cb env a))"
    by (rule vips_lazy_try_catch) (rule assms)+
  show ?thesis using Some t
    by (simp add: file_case_def destructure_def input_exists_def ensured_def Let_def
          vips_lazy_sharp_only split: sum.splits)
qed

lemma vips_lazy_stats_case:
  assumes "\<And>a fs1. vips_lazy env st (tb env a fs1 st)"
    and "\<And>a e fs2 st2. sharp_only st2 (cb env a e fs2 st2)"
  shows "vips_lazy env st (stats_case tb cb env fs st args)"
proof (cases args)
  case None
  then show ?thesis by (simp add: stats_case_def destructure_def vips_lazy_sharp_only)
next
  case (Some a)
  have t: "vips_lazy env st (try_catch (tb env a fs st) (cb env a))"
    by (rule vips_lazy_try_catch) (rule assms)+
  show ?thesis using Some t
    by (simp add: stats_case_def destructure_def input_exists_def Let_def vips_lazy_sharp_only)
qed

lemma sharp_only_cases:
  "sharp_only st (image_resize env fs st args)"
  "sharp_only st (image_convert env fs st args)"
  "sharp_only st (image_crop env fs st args)"
  "sharp_only st (image_rotate env fs st args)"
  "sharp_only st (image_flip env fs st args)"
  "sharp_only st (image_blur env fs st args)"
  "sharp_only st (image_sharpen env fs st args)"
  "sharp_only st (image_adjust_brightness env fs st args)"
  "sharp_only st (image_adjust_contrast env fs st args)"
  "sharp_only st (image_adjust_saturation env fs st args)"
  "sharp_only st (image_grayscale env fs st args)"
  "sharp_only st (image_thumbnail env fs st args)"
  "sharp_only st (image_extract_channel env fs st args)"
  unfolding image_resize_def image_convert_def image_crop_def image_rotate_def image_flip_def
    image_blur_def image_sharpen_def image_adjust_brightness_def image_adjust_contrast_def
    image_adjust_saturation_def image_grayscale_def image_thumbnail_def
    image_extract_channel_def Let_def
  by (intro sharp_only_intros sharp_only_toFile)+

lemma sharp_only_info: "sharp_only st (image_info env fs st args)"
  unfolding image_info_def Let_def
  by (intro sharp_only_intros) (simp split: sum.splits)

lemma sharp_only_composite: "sharp_only st (image_composite env fs st args)"
  unfolding image_composite_def Let_def
  by (intro sharp_only_intros) (simp add: sharp_only_ensured)

lemma sharp_only_histogram: "sharp_only st (image_histogram env fs st args)"
  unfolding image_histogram_def Let_def
  by (intro sharp_only_intros) (simp split: sum.splits)

lemma sharp_only_solid: "sharp_only st (create_solid_color env fs st args)"
  unfolding create_solid_color_def Let_def
  by (intro sharp_only_intros) (simp split: json.splits)

lemma sharp_only_circle: "sharp_only st (image_draw_circle env fs st args)"
  unfolding image_draw_circle_def Let_def
  by (intro sharp_only_intros) (simp split: sum.splits)

lemma sharp_only_pyramid:
  "image_create_pyramid env fs st args = Some out \<Longrightarrow> sharp_only st out"
  unfolding image_create_pyramid_def Let_def
  by (auto split: option.splits sum.splits if_splits prod.splits)

lemma sharp_only_catch:
  "sharp_only st (image_morphology_catch env a e fs st)"
  "sharp_only st (image_draw_line_catch env a e fs st)"
  "sharp_only st (image_edge_detection_catch env a e fs st)"
  "sharp_only st (image_advanced_stats_catch env a e fs st)"
  "sharp_only st (image_fft_catch env a e fs st)"
  "sharp_only st (image_custom_convolution_catch env a e fs st)"
  "sharp_only st (image_colorspace_convert_catch env a e fs st)"
  "sharp_only st (image_add_noise_catch env a e fs st)"
  "sharp_only st (image_perspective_transform_catch env a e fs st)"
  "sharp_only st (image_texture_analysis_catch env a e fs st)"
  "sharp_only st (image_flood_fill_catch env a e fs st)"
  unfolding image_morphology_catch_def image_draw_line_catch_def
    image_edge_detection_catch_def image_advanced_stats_catch_def image_fft_catch_def
    image_custom_convolution_catch_def image_colorspace_convert_catch_def
    image_add_noise_catch_def image_perspective_transform_catch_def
    image_texture_analysis_catch_def image_flood_fill_catch_def Let_def
  by (simp_all split: sum.splits)

lemma vips_lazy_try:
  "vips_lazy env st (image_morphology_try env a fs st)"
  "vips_lazy env st (image_draw_line_try env a fs st)"
  "vips_lazy env st (image_edge_detection_try env a fs st)"
  "vips_lazy env st (image_advanced_stats_try env a fs st)"
  "vips_lazy env st (image_fft_try env a fs st)"
  "vips_lazy env st (image_custom_convolution_try env a fs st)"
  "vips_lazy env st (image_colorspace_convert_try env a fs st)"
  "vips_lazy env st (image_add_noise_try env a fs st)"
  "vips_lazy env st (image_perspective_transform_try env a fs st)"
  "vips_lazy env st (image_texture_analysis_try env a fs st)"
  "vips_lazy env st (image_flood_fill_try env a fs st)"
  unfolding image_morphology_try_def image_draw_line_try_def
    image_edge_detection_try_def image_advanced_stats_try_def image_fft_try_def
    image_custom_convolution_try_def image_colorspace_convert_try_def
    image_add_noise_try_def image_perspective_transform_try_def
    image_texture_analysis_try_def image_flood_fill_try_def Let_def
  by (rule vips_lazy_with_vips, simp split: sum.splits option.splits)+

lemma vips_lazy_cases:
  "vips_lazy env st (image_morphology env fs st args)"
  "vips_lazy env st (image_draw_line env fs st args)"
  "vips_lazy env st (image_edge_detection env fs st args)"
  "vips_lazy env st (image_advanced_stats env fs st args)"
  "vips_lazy env st (image_fft env fs st args)"
  "vips_lazy env st (image_custom_convolution env fs st args)"
  "vips_lazy env st (image_colorspace_convert env fs st args)"
  "vips_lazy env st (image_add_noise env fs st args)"
  "vips_lazy env st (image_perspective_transform env fs st args)"
  "vips_lazy env st (image_texture_analysis env fs st args)"
  "vips_lazy env st (image_flood_fill env fs st args)"
  unfolding image_morphology_def image_draw_line_def image_edge_detection_def
    image_advanced_stats_def image_fft_def image_custom_convolution_def
    image_colorspace_convert_def image_add_noise_def image_perspective_transform_def
    image_texture_analysis_def image_flood_fill_def
  by (intro vips_lazy_file_case vips_lazy_stats_case vips_lazy_try sharp_only_catch)+


section \<open>The switch and the state across calls\<close>

lemma dispatch_simps:
  "dispatch env fs st ''image_info'' args = Some (image_info env fs st args)"
  "dispatch env fs st ''image_resize'' args = Some (image_resize env fs st args)"
  "dispatch env fs st ''image_convert'' args = Some (image_convert env fs st args)"
  "dispatch env fs st ''image_crop'' args = Some (image_crop env fs st args)"
  "dispatch env fs st ''image_rotate'' args = Some (image_rotate env fs st args)"
  "dispatch env fs st ''image_flip'' args = Some (image_flip env fs st args)"
  "dispatch env fs st ''image_blur'' args = Some (image_blur env fs st args)"
  "dispatch env fs st ''image_sharpen'' args = Some (image_sharpen env fs st args)"
  "dispatch env fs st ''image_adjust_brightness'' args = Some (image_adjust_brightness env fs st args)"
  "dispatch env fs st ''image_adjust_contrast'' args = Some (image_adjust_contrast env fs st args)"
  "dispatch env fs st ''image_adjust_saturation'' args = Some (image_adjust_saturation env fs st args)"
  "dispatch env fs st ''image_grayscale'' args = Some (image_grayscale env fs st args)"
  "dispatch env fs st ''image_composite'' args = Some (image_composite env fs st args)"
  "dispatch env fs st ''image_thumbnail'' args = Some (image_thumbnail env fs st args)"
  "dispatch env fs st ''image_extract_channel'' args = Some (image_extract_channel env fs st args)"
  "dispatch env fs st ''image_histogram'' args = Some (image_histogram env fs st args)"
  "dispatch env fs st ''create_solid_color'' args = Some (create_solid_color env fs st args)"
  "dispatch env fs st ''image_morphology'' args = Some (image_morphology env fs st args)"
  "dispatch env fs st ''image_draw_line'' args = Some (image_draw_line env fs st args)"
  "dispatch env fs st ''image_draw_circle'' args = Some (image_draw_circle env fs st args)"
  "dispatch env fs st ''image_edge_detection'' args = Some (image_edge_detection env fs st args)"
  "dispatch env fs st ''image_advanced_stats'' args = Some (image_advanced_stats env fs st args)"
  "dispatch env fs st ''image_fft'' args = Some (image_fft env fs st args)"
  "dispatch env fs st ''image_custom_convolution'' args = Some (image_custom_convolution env fs st args)"
  "dispatch env fs st ''image_colorspace_convert'' args = Some (image_colorspace_convert env fs st args)"
  "dispatch env fs st ''image_add_noise'' args = Some (image_add_noise env fs st args)"
  "dispatch env fs st ''image_perspective_transform'' args = Some (image_perspective_transform env fs st args)"
  "dispatch env fs st ''image_texture_analysis'' args = Some (image_texture_analysis env fs st args)"
  "dispatch env fs st ''image_flood_fill'' args = Some (image_flood_fill env fs st args)"
  "dispatch env fs st ''image_create_pyramid'' args = image_create_pyramid env fs st args"
  by (simp_all add: dispatch_def)

lemma dispatch_vips_lazy:
  "dispatch env fs st name args = Some out \<Longrightarrow> vips_lazy env st out"
  by (auto simp: dispatch_def sharp_only_cases sharp_only_info sharp_only_composite
      sharp_only_histogram sharp_only_solid sharp_only_circle vips_lazy_cases
      vips_lazy_sharp_only split: if_splits dest: sharp_only_pyramid)





lemma handler_state:
  assumes "handler env fs st request = Some (r, fs', st')"
  shows "st' = st \<or> st' = snd (initVips env st)"
proof -
  from assms obtain x where d: "dispatch env fs st (tool_name request) (arguments request) = Some (x, fs', st')"
    by (auto simp: handler_def split: option.splits sum.splits)
  from dispatch_vips_lazy [OF d] show ?thesis by (simp add: vips_lazy_def)
qed

lemma initVips_state:
  "snd (initVips env st) = st \<or>
   (vips st = None \<and>
     (snd (initVips env st) = st\<lparr>vips_loads := Suc (vips_loads st)\<rparr> \<or>
      snd (initVips env st) = st\<lparr>vips := Some (vips_loads st), vips_loads := Suc (vips_loads st)\<rparr>))"
  by (simp add: initVips_def split: option.splits)

lemma handler_tools:
  "handler env fs st request = Some (r, fs', st') \<Longrightarrow> tools st' = tools st"
  using handler_state [of env fs st request r fs' st'] initVips_state [of env st] by auto

lemma run_tools:
  "run env fs st requests = Some (fs', st') \<Longrightarrow> tools st' = tools st"
proof (induction requests arbitrary: fs st)
  case Nil
  then show ?case by simp
next
  case (Cons request rest)
  then show ?case
    by (auto split: option.splits dest!: handler_tools)
qed




section \<open>The try block and the catch block of a case\<close>







section \<open>The test for the input file\<close>




section \<open>The loop of the pyramid\<close>

text \<open>
  With \<^verbatim>\<open>levels\<close> a natural number and every resize succeeding, the loop started at
  level \<open>i\<close> ends after the levels \<open>i\<close> to \<open>n - 1\<close>, by induction on the levels left.
\<close>

lemma floor_half [simp]: "\<lfloor>(1/2)::rat\<rfloor> = 0"
  by linarith


lemma js_less_nat [simp]: "js_less env k (num (of_nat n)) = (k < n)"
  by (simp add: js_less_def ToNumber_def)


lemma scaled_0 [simp]: "scaled env x s 0 = x"
  by (simp add: scaled_def)

lemma write_file_JStr [simp]:
  "dirs (write_file fs (JStr p) b) = dirs fs"
  "files (write_file fs (JStr p) b) = (files fs)(p \<mapsto> b)"
  by (simp_all add: write_file_def)

lemma Math_floor_num [simp]: "Math_floor env (num r) = num (of_int \<lfloor>r\<rfloor>)"
  by (simp add: Math_floor_def ToNumber_def)




section \<open>Calls in the concrete environment\<close>

lemma parent_dir_out [simp]: "parent_dir ''out/o.png'' = ''out''"
  by (simp add: parent_dir_def)

lemma parent_dir_pyramid [simp]: "parent_dir ''out/pyramid'' = ''out''"
  by (simp add: parent_dir_def)

lemma demo_fft_run:
  "handler demo_env demo_fs initial_state \<lparr>tool_name = ''image_fft'', arguments = Some in_out\<rparr> =
   Some (text_response (sparkles @ '' FFT applied successfully: out/o.png''),
         demo_fs\<lparr>files := (files demo_fs)(''out/o.png'' \<mapsto> ''image'')\<rparr>,
         initial_state\<lparr>vips := Some 0, vips_loads := 1\<rparr>)"
  by (simp add: handler_def dispatch_simps image_fft_def file_case_def destructure_def
      input_exists_def ensured_def ensureDirectoryExists_def existsSync_def try_catch_def
      image_fft_try_def with_vips_def initVips_def writeToFile_return_def write_file_def
      String_of_def dflt_def in_out_def demo_env_def demo_fs_def initial_state_def Let_def
      insert_absorb)

lemma demo_fft_runs:
  "run demo_env demo_fs initial_state [\<lparr>tool_name = ''image_fft'', arguments = Some in_out\<rparr>] =
   Some (demo_fs\<lparr>files := (files demo_fs)(''out/o.png'' \<mapsto> ''image'')\<rparr>,
         initial_state\<lparr>vips := Some 0, vips_loads := 1\<rparr>)"
  by (simp add: demo_fft_run)

section \<open>Which operations fall back from one library to the other\<close>




section \<open>Arguments are not validated\<close>




section \<open>The top-level catch\<close>



section \<open>The wasm-vips handle\<close>



section \<open>The shape of every response\<close>



section \<open>The descriptor table stays as it is\<close>

text \<open>
  Claim C6. The listing handler returns the table of the state and changes nothing; a
  tool call that returns leaves the table as it was; so after any sequence of tool calls
  from the start of the process, the listing handler still returns the table of the
  source.
\<close>

theorem descriptors_immutable:
  "list_tools st = (tools st, st)
   \<and> (\<forall>r fs' st'. handler env fs st request = Some (r, fs', st') \<longrightarrow> tools st' = tools st)
   \<and> (\<forall>fs' st'. run env fs initial_state requests = Some (fs', st') \<longrightarrow>
        list_tools st' = (tools_table, st'))"
  by (auto simp: list_tools_def dest: handler_tools run_tools simp: initial_state_def)

theorem descriptors_immutable_witness:
  "list_tools (initial_state\<lparr>vips := Some 0, vips_loads := 1\<rparr>) =
     (tools_table, initial_state\<lparr>vips := Some 0, vips_loads := 1\<rparr>)"
  using descriptors_immutable [of initial_state demo_env demo_fs undefined
      "[\<lparr>tool_name = ''image_fft'', arguments = Some in_out\<rparr>]"] demo_fft_runs
  by simp

section \<open>What a call leaves in the server's state\<close>



section \<open>A missing input file\<close>



section \<open>A format outside the declared set\<close>



section \<open>The levels of the pyramid\<close>




end
